theory Spec2Isabelle
  imports Main "HOL-Library.Word" "HOL-Library.Sublist"
begin

unbundle bit_operations_syntax

section \<open>trezorCipherKeyValue: a shallow embedding of the three versions of \<open>main\<close>\<close>

text \<open>
  The repository holds one Go program, \<open>package main\<close>, in three successive versions:
  \<^item> \<open>src/main.go\<close>: the first version (stdin only, \<open>trezor.New()\<close>, no reset, no prompt
    backend);
  \<^item> \<open>src/unnamed/part_001\<close>: \<open>cryptoWallet.FindAny()\<close>, pinentry or a plain askpass process,
    reset, then input from the environment, a file or stdin;
  \<^item> \<open>src/unnamed/part_002\<close>: askpass discovery, input first, dummy device, askpass behind a
    pseudo-terminal, \<open>EncryptKey\<close>/\<open>DecryptKey\<close>.
  They are embedded as \<open>main_go\<close>, \<open>main_part_001\<close> and \<open>main_part_002\<close>.

  A Go \<open>string\<close> and a Go \<open>[]byte\<close> are both sequences of bytes; both are modelled by
  \<^typ>\<open>string\<close> (a list of 8-bit characters), so the conversions \<open>[]byte(s)\<close> and \<open>string(b)\<close>
  are the identity. A run of \<open>main\<close> is a function of the parsed flags and of the world
  (environment, files, device); it returns the list of the external calls it made, in order, and
  how the process ended.
\<close>

subsection \<open>Go library functions used by the program\<close>

type_synonym byte = "8 word"

text \<open>\<open>encoding/hex\<close>: \<open>hextable\<close> and \<open>EncodeToString\<close>, which writes \<open>hextable[v>>4]\<close> and
  \<open>hextable[v&0x0f]\<close> for every byte \<open>v\<close> of the source.\<close>

definition hextable :: string where
  "hextable = ''0123456789abcdef''"

fun EncodeToString :: "string \<Rightarrow> string" where
  "EncodeToString [] = []"
| "EncodeToString (v # src) =
     hextable ! unat (drop_bit 4 (of_char v :: byte)) #
     hextable ! unat ((of_char v :: byte) AND 0x0f) #
     EncodeToString src"

text \<open>\<open>strings.Trim(s, cutset)\<close> for a cutset of ASCII characters: the bytes of the cutset are
  removed from the right end, then from the left end.\<close>

definition strings_Trim :: "string \<Rightarrow> string \<Rightarrow> string" where
  "strings_Trim s cutset =
     dropWhile (\<lambda>c. c \<in> set cutset) (rev (dropWhile (\<lambda>c. c \<in> set cutset) (rev s)))"

text \<open>\<open>strings.Split(s, sep)\<close> for a separator of one byte: an empty \<open>s\<close> gives one empty
  field.\<close>

fun strings_Split :: "string \<Rightarrow> char \<Rightarrow> string list" where
  "strings_Split [] sep = [[]]"
| "strings_Split (c # cs) sep =
     (if c = sep then [] # strings_Split cs sep
      else (case strings_Split cs sep of
              [] \<Rightarrow> [[c]]
            | x # xs \<Rightarrow> (c # x) # xs))"

subsection \<open>Flags, world, events, outcomes\<close>

text \<open>The flags and parameters after \<open>getopt.Parse()\<close>, under the names of the source. The first
  version has only the first six; \<open>dummyDeviceFlag\<close> exists in the last version only.\<close>

record flags =
  helpFlag :: bool
  encryptFlag :: bool
  decryptFlag :: bool
  hexFlag :: bool
  verboseFlag :: bool
  keyNameParameter :: string
  askpassPathParameter :: string
  usePinentryFlag :: bool
  inputValueFileParameter :: string
  dummyDeviceFlag :: bool

text \<open>A Go \<open>error\<close> value, with the text of \<open>err.Error()\<close>.\<close>

datatype error = Error string

fun error_text :: "error \<Rightarrow> string" where
  "error_text (Error s) = s"

text \<open>The device facade (the external wallet): what each of its methods answers. \<open>isTrezor\<close> is
  the result of the type assertion \<open>wallet.(cryptoWalletInterfaces.Trezor)\<close>. The message type
  returned by \<open>CipherKeyValue\<close> is the integer of the protocol's enumeration.\<close>

record wallet =
  isTrezor :: bool
  wallet_Reset :: "error option"
  wallet_CipherKeyValue ::
    "string \<Rightarrow> bool \<Rightarrow> string \<Rightarrow> string \<Rightarrow> string \<Rightarrow> bool \<Rightarrow> bool \<Rightarrow> string \<times> int"
  wallet_EncryptKey :: "string \<Rightarrow> string \<Rightarrow> string \<Rightarrow> string \<Rightarrow> error + string"
  wallet_DecryptKey :: "string \<Rightarrow> string \<Rightarrow> string \<Rightarrow> string \<Rightarrow> error + string"

text \<open>The two message types of \<open>github.com/conejoninja/tesoro/pb/messages\<close> that the program
  names (their numbers in the device protocol).\<close>

definition MessageType_MessageType_Success :: int where
  "MessageType_MessageType_Success = 2"

definition MessageType_MessageType_CipheredKeyValue :: int where
  "MessageType_MessageType_CipheredKeyValue = 48"

text \<open>The world outside the process. \<open>path_Join\<close> is Go's \<open>path.Join\<close> of two elements;
  \<open>os_Stat\<close> tells whether \<open>os.Stat\<close> returns no error; \<open>trezor_New\<close> is the instance of the first
  version's \<open>trezor.New()\<close>.\<close>

record world =
  os_Getenv :: "string \<Rightarrow> string"
  ioutil_ReadAll_Stdin :: "error + string"
  ioutil_ReadFile :: "string \<Rightarrow> error + string"
  os_Stat :: "string \<Rightarrow> bool"
  path_Join :: "string \<Rightarrow> string \<Rightarrow> string"
  trezor_New :: wallet
  cryptoWallet_FindAny :: "wallet option"
  cryptoWallet_NewDummy :: "wallet option"

text \<open>What a prompt callback does when the device calls it: the external commands it starts and
  the messages it prints.\<close>

datatype stream = Unset | Os_Stdin | Os_Stderr | Bytes_Buffer

record Cmd =
  cmd_Path :: string
  cmd_Args :: "string list"
  cmd_Stdin :: stream
  cmd_Stdout :: stream
  cmd_Stderr :: stream

datatype cb_event =
    Cb_Stdout string
  | Cb_Stderr string
  | Cmd_Output Cmd
  | Pty_Start Cmd
  | Terminal_MakeRaw
  | Terminal_Restore
  | Go_Io_Copy_Stdin_To_Ptmx
  | Io_Copy_Ptmx_To_Stderr
  | Ptmx_Close
  | Pinentry_SetTitle string
  | Pinentry_SetDesc string
  | Pinentry_SetPrompt string
  | Pinentry_SetOK string
  | Pinentry_SetCancel string
  | Pinentry_GetPin

text \<open>What the callbacks find: \<open>exec_Output\<close> is the answer of \<open>cmd.Output()\<close>, which waits
  for the program; \<open>pty_Start\<close> is the error of \<open>pty.Start(cmd)\<close>; \<open>terminal_MakeRaw\<close> the error of
  \<open>terminal.MakeRaw\<close>. \<open>result_String\<close> is what the buffer \<open>result\<close> holds at the moment line 184
  of \<open>part_002\<close> reads it. That buffer is filled by a goroutine of \<open>os/exec\<close> which only
  \<open>cmd.Wait()\<close> joins, and \<open>part_002\<close> never calls \<open>cmd.Wait()\<close>: what is read need not be all
  that the program has written, and it is a parameter of its own, tied to nothing else.\<close>

record cb_world =
  exec_Output :: "Cmd \<Rightarrow> string \<times> error option"
  pty_Start :: "Cmd \<Rightarrow> error option"
  result_String :: "Cmd \<Rightarrow> string"
  terminal_MakeRaw :: "error option"
  pinentry_GetPin :: "string \<times> error option"

type_synonym getPinFunc =
  "cb_world \<Rightarrow> string \<Rightarrow> string \<Rightarrow> string \<Rightarrow> string \<Rightarrow> cb_event list \<times> (string \<times> error option)"

type_synonym getConfirmFunc =
  "string \<Rightarrow> string \<Rightarrow> string \<Rightarrow> string \<Rightarrow> cb_event list \<times> (bool \<times> error option)"

text \<open>The external calls of a run. \<open>Print\<close> is \<open>fmt.Print\<close> (the result, on standard output);
  \<open>Stdout\<close> is \<open>fmt.Println\<close> or \<open>fmt.Printf\<close> (a progress message on standard output);
  \<open>Stderr\<close> is \<open>fmt.Fprintln\<close> or \<open>fmt.Fprintf\<close> on \<open>os.Stderr\<close>.\<close>

datatype event =
    Usage
  | Print string
  | Stdout string
  | Stderr string
  | Stat string
  | Getenv string
  | ReadAll_Stdin
  | ReadFile string
  | Trezor_New
  | FindAny
  | NewDummy
  | SetDefaultAskOnEncode bool
  | NewPinentryClient
  | Pinentry_Close
  | SetGetPinFunc getPinFunc
  | SetGetConfirmFunc getConfirmFunc
  | Reset
  | CipherKeyValue string bool string string string bool bool
  | EncryptKey string string string string
  | DecryptKey string string string string

text \<open>How the process ends: \<open>main\<close> returns, \<open>os.Exit(code)\<close>, a panic with a text, the panic of
  an unexpected message type (with the type and the result), or a loop that never ends.\<close>

datatype outcome =
    Return
  | Exit int
  | Panic string
  | Panic_Unexpected_message int string
  | NoReturn

type_synonym run = "event list \<times> outcome"

subsection \<open>Sequencing\<close>

definition after :: "event list \<Rightarrow> run \<Rightarrow> run" where
  "after t r = (t @ fst r, snd r)"

definition andThen :: "event list \<times> (outcome + 'a) \<Rightarrow> ('a \<Rightarrow> run) \<Rightarrow> run" where
  "andThen m k = (case snd m of Inl out \<Rightarrow> (fst m, out) | Inr a \<Rightarrow> after (fst m) (k a))"

text \<open>A message printed only under \<open>if *verboseFlag\<close>.\<close>

definition say :: "bool \<Rightarrow> 'e \<Rightarrow> 'e list" where
  "say verbose e = (if verbose then [e] else [])"

text \<open>A deferred call runs when \<open>main\<close> returns or panics, not on \<open>os.Exit\<close>.\<close>

definition run_deferred :: "event list \<Rightarrow> run \<Rightarrow> run" where
  "run_deferred d r =
     (case snd r of
        Exit c \<Rightarrow> r
      | NoReturn \<Rightarrow> r
      | _ \<Rightarrow> (fst r @ d, snd r))"

subsection \<open>Constants and helpers of the source\<close>

definition cryptsetupAskpassPath :: string where
  "cryptsetupAskpassPath = ''/lib/cryptsetup/askpass''"

definition systemdAskpassPath :: string where
  "systemdAskpassPath = ''systemd-ask-password''"

definition iv_go :: string where
  "iv_go = map char_of
     [0xf9, 0xa1, 0x99, 0xec, 0xa6, 0x81, 0x78, 0x19,
      0xcc, 0x67, 0x55, 0x61, 0x6e, 0xc3, 0x1e, 0xd8 :: nat]"

definition iv :: string where
  "iv = ''trezorCipher IV''"

definition derivation_path_go :: string where
  "derivation_path_go = ''m/71'/a6'/3'/45'/97'' @ [CHR 0x27]"

definition derivation_path :: string where
  "derivation_path = ''m/10019'/1'' @ [CHR 0x27]"

definition EINVAL :: int where
  "EINVAL = 22"

definition usage_required :: "event list" where
  "usage_required =
     [Stderr ''Error: Flag --encrypt or --decrypt is required.\<newline>\<newline>'', Usage]"

text \<open>\<open>checkError\<close>: nothing on a nil error, otherwise a line on standard error and
  \<open>os.Exit(-1)\<close>.\<close>

definition checkError :: "error option \<Rightarrow> event list \<times> outcome option" where
  "checkError err =
     (case err of
        None \<Rightarrow> ([], None)
      | Some e \<Rightarrow> ([Stderr (''Got error: '' @ error_text e @ ''\<newline>'')], Some (Exit (- 1))))"

text \<open>The loop of \<open>checkIfExecutableExists\<close> over the directories of \<open>PATH\<close>.\<close>

fun stat_in_dirs :: "world \<Rightarrow> string \<Rightarrow> string list \<Rightarrow> event list \<times> bool" where
  "stat_in_dirs w name [] = ([], False)"
| "stat_in_dirs w name (dir # dirs) =
     (if os_Stat w (path_Join w dir name) then ([Stat (path_Join w dir name)], True)
      else (Stat (path_Join w dir name) # fst (stat_in_dirs w name dirs),
            snd (stat_in_dirs w name dirs)))"

definition checkIfExecutableExists :: "world \<Rightarrow> string \<Rightarrow> event list \<times> bool" where
  "checkIfExecutableExists w name =
     (if length name = 0 then ([], False)
      else if hd name = CHR ''/'' then ([Stat name], os_Stat w name)
      else (Getenv ''PATH'' # fst (stat_in_dirs w name (strings_Split (os_Getenv w ''PATH'') CHR '':'')),
            snd (stat_in_dirs w name (strings_Split (os_Getenv w ''PATH'') CHR '':''))))"

subsection \<open>The decrypt-side padding (the same lines in the three versions)\<close>

text \<open>The loop \<open>for len(dataHexed)%32 != 0 { dataHexed += "00" }\<close>. On a text of odd length it
  never ends, so it is a partial function: \<open>None\<close> is "does not return".\<close>

partial_function (option) pad_loop :: "string \<Rightarrow> string option" where
  "pad_loop dataHexed =
     (if length dataHexed mod 32 \<noteq> 0 then pad_loop (dataHexed @ ''00'') else Some dataHexed)"

text \<open>Lines 62-76 of \<open>main.go\<close>, 180-194 of \<open>part_001\<close>, 201-215 of \<open>part_002\<close>, the body of
  \<open>if *decryptFlag\<close>; \<open>msg\<close> is the text of the panic, which differs between the versions.\<close>

definition decrypt_padding :: "string \<Rightarrow> bool \<Rightarrow> string \<Rightarrow> outcome + string" where
  "decrypt_padding msg hex data =
     (let dataHexed = (if \<not> hex then EncodeToString data else data) in
      if length dataHexed mod 2 \<noteq> 0 then Inl (Panic msg)
      else (case pad_loop dataHexed of
              None \<Rightarrow> Inl NoReturn
            | Some padded \<Rightarrow> Inr padded))"

definition odd_msg :: string where
  "odd_msg = ''len(dataHexed) is odd''"

definition odd_msg_part_002 :: string where
  "odd_msg_part_002 = ''internal error: len(dataHexed) is odd''"

definition padding_step :: "string \<Rightarrow> flags \<Rightarrow> string \<Rightarrow> event list \<times> (outcome + string)" where
  "padding_step msg f data =
     (if decryptFlag f then ([], decrypt_padding msg (hexFlag f) data) else ([], Inr data))"

text \<open>The end of every version: \<open>if *encryptFlag && *hexFlag\<close> the result is hex-encoded; then
  \<open>fmt.Print(string(result))\<close>.\<close>

definition print_result :: "flags \<Rightarrow> string \<Rightarrow> run" where
  "print_result f result =
     ([Print (if encryptFlag f \<and> hexFlag f then EncodeToString result else result)], Return)"

subsection \<open>Input acquisition (the same lines in \<open>part_001\<close> and \<open>part_002\<close>)\<close>

text \<open>Lines 161-178 of \<open>part_001\<close> and 112-129 of \<open>part_002\<close>; \<open>msg\<close> is where the progress
  messages go: standard output in \<open>part_001\<close>, standard error in \<open>part_002\<close>.\<close>

definition acquire_input :: "(string \<Rightarrow> event) \<Rightarrow> flags \<Rightarrow> world \<Rightarrow> event list \<times> (outcome + string)" where
  "acquire_input msg f w =
     (let data = os_Getenv w ''TREZOR_CIPHER_VALUE'' in
      if length data = 0 then
        (if inputValueFileParameter f = ''-'' then
           (case ioutil_ReadAll_Stdin w of
              Inl err \<Rightarrow>
                (Getenv ''TREZOR_CIPHER_VALUE'' #
                   say (verboseFlag f) (msg ''Reading the data from stdin.\<newline>'') @
                   ReadAll_Stdin # fst (checkError (Some err)),
                 Inl (Exit (- 1)))
            | Inr d \<Rightarrow>
                (Getenv ''TREZOR_CIPHER_VALUE'' #
                   say (verboseFlag f) (msg ''Reading the data from stdin.\<newline>'') @
                   [ReadAll_Stdin],
                 Inr d))
         else
           (case ioutil_ReadFile w (inputValueFileParameter f) of
              Inl err \<Rightarrow>
                (Getenv ''TREZOR_CIPHER_VALUE'' #
                   say (verboseFlag f)
                     (msg (''Reading the data file '' @ [CHR 0x22] @ inputValueFileParameter f @
                           [CHR 0x22] @ ''\<newline>'')) @
                   ReadFile (inputValueFileParameter f) # fst (checkError (Some err)),
                 Inl (Exit (- 1)))
            | Inr d \<Rightarrow>
                (Getenv ''TREZOR_CIPHER_VALUE'' #
                   say (verboseFlag f)
                     (msg (''Reading the data file '' @ [CHR 0x22] @ inputValueFileParameter f @
                           [CHR 0x22] @ ''\<newline>'')) @
                   [ReadFile (inputValueFileParameter f)],
                 Inr d)))
      else ([Getenv ''TREZOR_CIPHER_VALUE''], Inr data))"

subsection \<open>The prompt callbacks\<close>

text \<open>The pinentry closure of \<open>part_001\<close> (lines 130-137) and \<open>part_002\<close> (lines 153-160).\<close>

definition getPinFunc_pinentry :: getPinFunc where
  "getPinFunc_pinentry cw title description ok cancel =
     ([Pinentry_SetTitle title, Pinentry_SetDesc description, Pinentry_SetPrompt title,
       Pinentry_SetOK ok, Pinentry_SetCancel cancel, Pinentry_GetPin],
      pinentry_GetPin cw)"

definition running_command :: "string \<Rightarrow> string \<Rightarrow> string" where
  "running_command askpassPath title =
     ''Running command '' @ [CHR 0x22] @ askpassPath @ '' '' @ title @ [CHR 0x22] @ ''\<newline>''"

text \<open>The askpass closure of \<open>part_001\<close> (lines 139-147): \<open>exec.Command(path, title)\<close> with the
  caller's standard input and standard error, and \<open>return cmd.Output()\<close>.\<close>

definition getPinFunc_askpass_part_001 :: "bool \<Rightarrow> string \<Rightarrow> getPinFunc" where
  "getPinFunc_askpass_part_001 verbose askpassPath cw title description ok cancel =
     (let cmd = \<lparr>cmd_Path = askpassPath, cmd_Args = [askpassPath, title],
                 cmd_Stdin = Os_Stdin, cmd_Stdout = Unset, cmd_Stderr = Os_Stderr\<rparr>
      in (say verbose (Cb_Stdout (running_command askpassPath title)) @ [Cmd_Output cmd],
          exec_Output cw cmd))"

definition stdin_closed_msg :: string where
  "stdin_closed_msg =
     ''The stdin is already closed, but we're waiting for reply from an askpass utility (this is OK, if the utility is not waiting any input from out stdin).''"

text \<open>The askpass closure of \<open>part_002\<close> (lines 162-186): the command writes into the buffer
  \<open>result\<close> and runs behind a pseudo-terminal; the two \<open>io.Copy\<close> relay the terminal; the answer
  is \<open>strings.Trim(result.String(), "\n\r")\<close>. The deferred calls run last, in reverse order.\<close>

definition getPinFunc_askpass_part_002 :: "bool \<Rightarrow> string \<Rightarrow> getPinFunc" where
  "getPinFunc_askpass_part_002 verbose askpassPath cw title description ok cancel =
     (let cmd = \<lparr>cmd_Path = askpassPath, cmd_Args = [askpassPath, title],
                 cmd_Stdin = Unset, cmd_Stdout = Bytes_Buffer, cmd_Stderr = Unset\<rparr>
      in case pty_Start cw cmd of
           Some err \<Rightarrow>
             (say verbose (Cb_Stderr (running_command askpassPath title)) @ [Pty_Start cmd],
              ([], Some err))
         | None \<Rightarrow>
             (say verbose (Cb_Stderr (running_command askpassPath title)) @
                [Pty_Start cmd, Terminal_MakeRaw] @
                (if terminal_MakeRaw cw = None then [] else [Cb_Stderr stdin_closed_msg]) @
                [Go_Io_Copy_Stdin_To_Ptmx, Io_Copy_Ptmx_To_Stderr] @
                (if terminal_MakeRaw cw = None then [Terminal_Restore] else []) @
                [Ptmx_Close],
              (strings_Trim (result_String cw cmd) [CHR ''\<newline>'', CHR 0x0D], None)))"

text \<open>The confirmation closure of \<open>part_001\<close> (lines 149-151) and \<open>part_002\<close> (lines 188-190):
  \<open>return false, nil\<close>.\<close>

definition getConfirmFunc_deny :: getConfirmFunc where
  "getConfirmFunc_deny title description ok cancel = ([], (False, None))"

text \<open>Registering the callbacks: \<open>if *usePinentryFlag\<close> the pinentry client, otherwise the askpass
  closure of the version; then the confirmation closure.\<close>

definition set_callbacks :: "flags \<Rightarrow> getPinFunc \<Rightarrow> event list" where
  "set_callbacks f askpass =
     (if usePinentryFlag f then [NewPinentryClient, SetGetPinFunc getPinFunc_pinentry]
      else [SetGetPinFunc askpass]) @
     [SetGetConfirmFunc getConfirmFunc_deny]"

definition deferred_close :: "flags \<Rightarrow> event list" where
  "deferred_close f = (if usePinentryFlag f then [Pinentry_Close] else [])"

subsection \<open>\<open>main\<close> of \<open>src/main.go\<close>\<close>

definition cipher_go :: "flags \<Rightarrow> wallet \<Rightarrow> string \<Rightarrow> run" where
  "cipher_go f trezorInstance data =
     (case wallet_CipherKeyValue trezorInstance derivation_path_go (encryptFlag f)
             (keyNameParameter f) data iv_go True True of
        (result, msgType) \<Rightarrow>
          after [CipherKeyValue derivation_path_go (encryptFlag f) (keyNameParameter f) data
                   iv_go True True]
            (if msgType = MessageType_MessageType_Success
                \<or> msgType = MessageType_MessageType_CipheredKeyValue
             then print_result f result
             else ([], Panic_Unexpected_message msgType result)))"

definition read_stdin_go :: "flags \<Rightarrow> world \<Rightarrow> event list \<times> (outcome + string)" where
  "read_stdin_go f w =
     (case ioutil_ReadAll_Stdin w of
        Inl err \<Rightarrow>
          (say (verboseFlag f) (Stdout ''Reading the data from stdin.\<newline>'') @
             ReadAll_Stdin # fst (checkError (Some err)),
           Inl (Exit (- 1)))
      | Inr stdinBytes \<Rightarrow>
          (say (verboseFlag f) (Stdout ''Reading the data from stdin.\<newline>'') @ [ReadAll_Stdin],
           Inr stdinBytes))"

definition sent_request :: string where
  "sent_request =
     ''Sent a request to a Trezor device (please confirm the operation if required).\<newline>''"

definition main_go :: "flags \<Rightarrow> world \<Rightarrow> run" where
  "main_go f w =
     (if helpFlag f then ([Usage], Exit EINVAL)
      else if \<not> encryptFlag f \<and> \<not> decryptFlag f then (usage_required, Exit EINVAL)
      else
        after [Trezor_New]
       (andThen (read_stdin_go f w) (\<lambda>data.
        andThen (padding_step odd_msg f data) (\<lambda>data.
        after (say (verboseFlag f) (Stdout sent_request))
          (cipher_go f (trezor_New w) data)))))"

subsection \<open>\<open>main\<close> of \<open>src/unnamed/part_001\<close>\<close>

definition no_devices :: string where
  "no_devices = ''No trezor devices found''"

definition find_wallet_part_001 :: "world \<Rightarrow> event list \<times> (outcome + wallet)" where
  "find_wallet_part_001 w =
     (case cryptoWallet_FindAny w of
        None \<Rightarrow> ([FindAny], Inl (Panic no_devices))
      | Some wallet \<Rightarrow>
          if isTrezor wallet then ([FindAny], Inr wallet)
          else ([FindAny], Inl (Panic no_devices)))"

definition setting_state :: string where
  "setting_state = ''Setting Trezor device state to the initial state.\<newline>''"

definition cannot_set :: string where
  "cannot_set = ''Cannot set the Trezor device state to the initial state''"

definition cipher_part_001 :: "flags \<Rightarrow> wallet \<Rightarrow> string \<Rightarrow> run" where
  "cipher_part_001 f trezorInstance data =
     (case wallet_CipherKeyValue trezorInstance derivation_path (encryptFlag f)
             (keyNameParameter f) data iv True True of
        (result, msgType) \<Rightarrow>
          after [CipherKeyValue derivation_path (encryptFlag f) (keyNameParameter f) data
                   iv True True]
            (if msgType = MessageType_MessageType_Success
                \<or> msgType = MessageType_MessageType_CipheredKeyValue
             then print_result f result
             else ([], Panic_Unexpected_message msgType result)))"

definition reset_part_001 :: "flags \<Rightarrow> wallet \<Rightarrow> event list \<times> (outcome + unit)" where
  "reset_part_001 f trezorInstance =
     (say (verboseFlag f) (Stdout setting_state) @ [Reset],
      (case wallet_Reset trezorInstance of
         Some err \<Rightarrow> Inl (Panic cannot_set)
       | None \<Rightarrow> Inr ()))"

definition main_part_001 :: "flags \<Rightarrow> world \<Rightarrow> run" where
  "main_part_001 f w =
     (if helpFlag f then ([Usage], Exit 0)
      else if \<not> encryptFlag f \<and> \<not> decryptFlag f then (usage_required, Exit EINVAL)
      else
        andThen (find_wallet_part_001 w) (\<lambda>trezorInstance.
        run_deferred (deferred_close f)
       (after (set_callbacks f
                 (getPinFunc_askpass_part_001 (verboseFlag f) (askpassPathParameter f)))
       (andThen (reset_part_001 f trezorInstance) (\<lambda>_.
        andThen (acquire_input Stdout f w) (\<lambda>data.
        andThen (padding_step odd_msg f data) (\<lambda>data.
        after (say (verboseFlag f) (Stdout sent_request))
          (cipher_part_001 f trezorInstance data))))))))"

subsection \<open>\<open>main\<close> of \<open>src/unnamed/part_002\<close>\<close>

definition no_askpass :: string where
  "no_askpass =
     ''Error: There's no askpass utility found. Please use option -P or -p to select an utility to enter a PIN-code and a passphrase.\<newline>''"

text \<open>Lines 100-110: with no \<open>--askpass-path\<close>, the first of the two known utilities that
  exists, or \<open>os.Exit(6)\<close>.\<close>

definition find_askpass :: "flags \<Rightarrow> world \<Rightarrow> event list \<times> (outcome + string)" where
  "find_askpass f w =
     (if askpassPathParameter f = '''' then
        (if snd (checkIfExecutableExists w cryptsetupAskpassPath)
         then (fst (checkIfExecutableExists w cryptsetupAskpassPath), Inr cryptsetupAskpassPath)
         else if snd (checkIfExecutableExists w systemdAskpassPath)
         then (fst (checkIfExecutableExists w cryptsetupAskpassPath) @
               fst (checkIfExecutableExists w systemdAskpassPath),
               Inr systemdAskpassPath)
         else (fst (checkIfExecutableExists w cryptsetupAskpassPath) @
               fst (checkIfExecutableExists w systemdAskpassPath) @
               [Stderr no_askpass],
               Inl (Exit 6)))
      else ([], Inr (askpassPathParameter f)))"

definition no_devices_line :: string where
  "no_devices_line = ''No trezor devices found\<newline>''"

text \<open>Lines 131-148: the dummy wallet or any wallet found; without \<open>--dummy\<close> it must be a
  Trezor.\<close>

definition find_wallet_part_002 :: "flags \<Rightarrow> world \<Rightarrow> event list \<times> (outcome + wallet)" where
  "find_wallet_part_002 f w =
     (case (if dummyDeviceFlag f then cryptoWallet_NewDummy w else cryptoWallet_FindAny w) of
        None \<Rightarrow>
          ([if dummyDeviceFlag f then NewDummy else FindAny, Stderr no_devices_line],
           Inl (Exit 1))
      | Some wallet \<Rightarrow>
          if \<not> dummyDeviceFlag f then
            (if isTrezor wallet then ([FindAny, SetDefaultAskOnEncode True], Inr wallet)
             else ([FindAny, Stderr no_devices_line], Inl (Exit 1)))
          else ([NewDummy], Inr wallet))"

definition reset_part_002 :: "flags \<Rightarrow> wallet \<Rightarrow> event list \<times> (outcome + unit)" where
  "reset_part_002 f wallet =
     (case wallet_Reset wallet of
        Some err \<Rightarrow>
          (say (verboseFlag f) (Stderr setting_state) @
             [Reset, Stderr (cannot_set @ ''\<newline>'')],
           Inl (Exit 2))
      | None \<Rightarrow> (say (verboseFlag f) (Stderr setting_state) @ [Reset], Inr ()))"

definition cipher_part_002 :: "flags \<Rightarrow> wallet \<Rightarrow> string \<Rightarrow> run" where
  "cipher_part_002 f wallet data =
     (if encryptFlag f then
        (case wallet_EncryptKey wallet derivation_path data iv (keyNameParameter f) of
           Inl err \<Rightarrow>
             ([EncryptKey derivation_path data iv (keyNameParameter f),
               Stderr (''Error: '' @ error_text err)],
              Exit 3)
         | Inr result \<Rightarrow>
             after [EncryptKey derivation_path data iv (keyNameParameter f)]
               (print_result f result))
      else
        (case wallet_DecryptKey wallet derivation_path data iv (keyNameParameter f) of
           Inl err \<Rightarrow>
             ([DecryptKey derivation_path data iv (keyNameParameter f),
               Stderr (''Error: '' @ error_text err)],
              Exit 3)
         | Inr result \<Rightarrow>
             after [DecryptKey derivation_path data iv (keyNameParameter f)]
               (print_result f result)))"

definition main_part_002 :: "flags \<Rightarrow> world \<Rightarrow> run" where
  "main_part_002 f w =
     (if helpFlag f then ([Usage], Exit 0)
      else if \<not> encryptFlag f \<and> \<not> decryptFlag f then (usage_required, Exit EINVAL)
      else
        andThen (find_askpass f w) (\<lambda>askpassPath.
        andThen (acquire_input Stderr f w) (\<lambda>data.
        andThen (find_wallet_part_002 f w) (\<lambda>wallet.
        run_deferred (deferred_close f)
       (after (set_callbacks f (getPinFunc_askpass_part_002 (verboseFlag f) askpassPath))
       (andThen (reset_part_002 f wallet) (\<lambda>_.
        andThen (padding_step odd_msg_part_002 f data) (\<lambda>data.
        after (say (verboseFlag f) (Stderr sent_request))
          (cipher_part_002 f wallet data)))))))))"

subsection \<open>Reading a trace\<close>

text \<open>What a list of events holds of one kind, in order.\<close>

definition collect :: "('e \<Rightarrow> 'a list) \<Rightarrow> 'e list \<Rightarrow> 'a list" where
  "collect g t = concat (map g t)"

text \<open>The payload handed to the device by a cipher operation.\<close>

fun payload_of :: "event \<Rightarrow> string list" where
  "payload_of (CipherKeyValue path enc keyName data i askEnc askDec) = [data]"
| "payload_of (EncryptKey path data i keyName) = [data]"
| "payload_of (DecryptKey path data i keyName) = [data]"
| "payload_of _ = []"

definition payloads :: "event list \<Rightarrow> string list" where
  "payloads t = collect payload_of t"

text \<open>The result written by \<open>fmt.Print\<close>, and everything written on standard output.\<close>

fun print_of :: "event \<Rightarrow> string list" where
  "print_of (Print s) = [s]"
| "print_of _ = []"

definition prints :: "event list \<Rightarrow> string list" where
  "prints t = collect print_of t"

fun stdout_of :: "event \<Rightarrow> string list" where
  "stdout_of (Print s) = [s]"
| "stdout_of (Stdout s) = [s]"
| "stdout_of _ = []"

definition stdout_writes :: "event list \<Rightarrow> string list" where
  "stdout_writes t = collect stdout_of t"

text \<open>The reads of standard input and of files.\<close>

fun read_of :: "event \<Rightarrow> event list" where
  "read_of ReadAll_Stdin = [ReadAll_Stdin]"
| "read_of (ReadFile name) = [ReadFile name]"
| "read_of _ = []"

definition reads :: "event list \<Rightarrow> event list" where
  "reads t = collect read_of t"

text \<open>The confirmation callbacks registered with the device.\<close>

fun confirm_of :: "event \<Rightarrow> getConfirmFunc list" where
  "confirm_of (SetGetConfirmFunc cb) = [cb]"
| "confirm_of _ = []"

definition confirm_funcs :: "event list \<Rightarrow> getConfirmFunc list" where
  "confirm_funcs t = collect confirm_of t"




subsection \<open>Concrete flags and worlds\<close>

text \<open>The defaults of the options of \<open>part_002\<close>, with no flag given.\<close>

definition flags_default :: flags where
  "flags_default =
     \<lparr>helpFlag = False, encryptFlag = False, decryptFlag = False, hexFlag = False,
      verboseFlag = False, keyNameParameter = ''unnamed key'', askpassPathParameter = '''',
      usePinentryFlag = False, inputValueFileParameter = ''-'', dummyDeviceFlag = False\<rparr>"

text \<open>A device that answers every cipher operation with the payload it was given.\<close>

definition echo_wallet :: wallet where
  "echo_wallet =
     \<lparr>isTrezor = True, wallet_Reset = None,
      wallet_CipherKeyValue =
        (\<lambda>path enc keyName data i askEnc askDec. (data, MessageType_MessageType_CipheredKeyValue)),
      wallet_EncryptKey = (\<lambda>path data i keyName. Inr data),
      wallet_DecryptKey = (\<lambda>path data i keyName. Inr data)\<rparr>"

text \<open>A world with the given standard input, no \<open>TREZOR_CIPHER_VALUE\<close>, \<open>PATH=/usr/bin:/bin\<close>,
  the files for which \<open>exists\<close> holds, and the echo device.\<close>

definition world_stdin :: "string \<Rightarrow> (string \<Rightarrow> bool) \<Rightarrow> world" where
  "world_stdin input exists =
     \<lparr>os_Getenv = (\<lambda>name. if name = ''PATH'' then ''/usr/bin:/bin'' else []),
      ioutil_ReadAll_Stdin = Inr input,
      ioutil_ReadFile = (\<lambda>name. Inl (Error ''no such file or directory'')),
      os_Stat = exists,
      path_Join = (\<lambda>dir name. dir @ ''/'' @ name),
      trezor_New = echo_wallet,
      cryptoWallet_FindAny = Some echo_wallet,
      cryptoWallet_NewDummy = Some echo_wallet\<rparr>"

definition askpass_installed :: "string \<Rightarrow> bool" where
  "askpass_installed name = (name = ''/lib/cryptsetup/askpass'')"

definition nothing_installed :: "string \<Rightarrow> bool" where
  "nothing_installed name = False"

text \<open>An input of even length with no hexadecimal digit in it.\<close>

definition not_hex :: string where
  "not_hex = ''Zz!?-_''"


text \<open>A device that answers every \<open>CipherKeyValue\<close> with a message of type 3 (a failure), and the
  world that has it.\<close>

definition refusing_wallet :: wallet where
  "refusing_wallet =
     echo_wallet\<lparr>wallet_CipherKeyValue :=
        (\<lambda>path enc keyName data i askEnc askDec. (''denied'', 3))\<rparr>"

definition world_refusing :: "string \<Rightarrow> world" where
  "world_refusing input =
     (world_stdin input askpass_installed)
       \<lparr>trezor_New := refusing_wallet, cryptoWallet_FindAny := Some refusing_wallet\<rparr>"

text \<open>A world where \<open>TREZOR_CIPHER_VALUE\<close> holds the given value.\<close>

definition world_env :: "string \<Rightarrow> world" where
  "world_env v =
     (world_stdin ''from stdin'' askpass_installed)
       \<lparr>os_Getenv := (\<lambda>name. if name = ''TREZOR_CIPHER_VALUE'' then v
                              else if name = ''PATH'' then ''/usr/bin:/bin'' else [])\<rparr>"

text \<open>A program that starts and writes \<open>out\<close> on its standard output: \<open>cmd.Output()\<close> returns
  \<open>out\<close>, and \<open>buf\<close> is what the buffer of \<open>part_002\<close> holds when it is read (all of \<open>out\<close> when
  the copy has finished by then, less otherwise). And a program that cannot be started.\<close>

definition askpass_world :: "string \<Rightarrow> string \<Rightarrow> cb_world" where
  "askpass_world out buf =
     \<lparr>exec_Output = (\<lambda>cmd. (out, None)), pty_Start = (\<lambda>cmd. None),
      result_String = (\<lambda>cmd. buf), terminal_MakeRaw = None,
      pinentry_GetPin = ([], None)\<rparr>"



definition newline_digits_crlf :: string where
  "newline_digits_crlf = ''\<newline>1234'' @ [CHR 0x0D, CHR ''\<newline>'']"
section \<open>The hex encoding and the padding loop\<close>

lemma hi_nibble: "unat (drop_bit 4 (b :: byte)) < 16"
proof -
  have "unat b < 256" using unsigned_less [of b, where 'a = nat] by simp
  then have "unat b div 2 ^ 4 < 16" by simp
  moreover have "unat (drop_bit 4 b) = drop_bit 4 (unat b)"
    by (rule unat_drop_bit_eq)
  moreover have "drop_bit 4 (unat b) = unat b div 2 ^ 4"
    by (rule drop_bit_eq_div)
  ultimately show ?thesis by simp
qed

lemma lo_nibble: "unat ((b :: byte) AND 0x0f) < 16"
proof -
  have "b AND 0x0f = take_bit 4 b"
    by (simp add: take_bit_eq_mask mask_eq_exp_minus_1)
  moreover have "unat (take_bit 4 b) = take_bit 4 (unat b)"
    by (rule unsigned_take_bit_eq)
  moreover have "take_bit 4 (unat b) = unat b mod 2 ^ 4"
    by (rule take_bit_eq_mod)
  ultimately show ?thesis by simp
qed

lemma hextable_nth: "n < 16 \<Longrightarrow> hextable ! n \<in> set hextable"
  by (rule nth_mem) (simp add: hextable_def)

lemma length_EncodeToString: "length (EncodeToString src) = 2 * length src"
  by (induction src) simp_all

lemma set_EncodeToString: "set (EncodeToString src) \<subseteq> set hextable"
  by (induction src) (simp_all add: hextable_nth hi_nibble lo_nibble)

lemma pad_loop_steps:
  "k \<le> 15 \<Longrightarrow> length s mod 32 = (32 - 2 * k) mod 32
    \<Longrightarrow> pad_loop s = Some (s @ concat (replicate k ''00''))"
proof (induction k arbitrary: s)
  case 0
  then have "length s mod 32 = 0" by simp
  then show ?case by (subst pad_loop.simps) simp
next
  case (Suc k)
  have r: "length s mod 32 = 30 - 2 * k" using Suc.prems by simp
  have ne: "length s mod 32 \<noteq> 0" using r Suc.prems(1) by linarith
  have "length (s @ ''00'') = length s + 2" by simp
  then have "length (s @ ''00'') mod 32 = (length s mod 32 + 2) mod 32"
    by (simp only: mod_add_left_eq)
  also have "length s mod 32 + 2 = 32 - 2 * k" using r Suc.prems(1) by linarith
  finally have st: "length (s @ ''00'') mod 32 = (32 - 2 * k) mod 32" .
  have k: "k \<le> 15" using Suc.prems(1) by simp
  have "pad_loop s = pad_loop (s @ ''00'')"
    using ne by (subst pad_loop.simps) simp
  also have "\<dots> = Some ((s @ ''00'') @ concat (replicate k ''00''))"
    by (rule Suc.IH [OF k st])
  finally show ?case by simp
qed

lemma pad_loop_even:
  assumes "even (length s)"
  shows "pad_loop s = Some (s @ concat (replicate ((32 - length s mod 32) mod 32 div 2) ''00''))"
proof -
  have "even (length s mod 32)" using assms by (simp add: dvd_mod_iff)
  then obtain m where m: "length s mod 32 = 2 * m" by (auto elim: evenE)
  have lt: "length s mod 32 < 32" by simp
  then have m16: "m < 16" using m by linarith
  show ?thesis
  proof (cases "m = 0")
    case True
    then show ?thesis using m by (simp add: pad_loop_steps [of 0 s])
  next
    case False
    then have k: "(32 - length s mod 32) mod 32 div 2 = 16 - m" using m m16 by simp
    have "16 - m \<le> 15" using False by linarith
    moreover have "length s mod 32 = (32 - 2 * (16 - m)) mod 32" using m m16 by simp
    ultimately show ?thesis unfolding k by (rule pad_loop_steps)
  qed
qed

lemma length_zero_pairs: "length (concat (replicate k ''00'')) = 2 * k"
  by (induction k) simp_all

lemma padded_even:
  "even (length h) \<Longrightarrow>
     (if length h mod 2 \<noteq> 0 then Inl (Panic msg)
      else (case pad_loop h of None \<Rightarrow> Inl NoReturn | Some padded \<Rightarrow> Inr padded)) =
     Inr (h @ concat (replicate ((32 - length h mod 32) mod 32 div 2) ''00''))"
proof -
  assume e: "even (length h)"
  then have "length h mod 2 = 0" by presburger
  then show ?thesis by (simp only: pad_loop_even [OF e]) simp
qed


lemma decrypt_padding_hex:
  "decrypt_padding msg True data =
     (if odd (length data) then Inl (Panic msg)
      else Inr (data @ concat (replicate ((32 - length data mod 32) mod 32 div 2) ''00'')))"
proof (cases "odd (length data)")
  case True
  then have "length data mod 2 \<noteq> 0" by presburger
  then show ?thesis using True unfolding decrypt_padding_def Let_def by simp
next
  case False
  have "decrypt_padding msg True data =
     (if length data mod 2 \<noteq> 0 then Inl (Panic msg)
      else (case pad_loop data of None \<Rightarrow> Inl NoReturn | Some padded \<Rightarrow> Inr padded))"
    unfolding decrypt_padding_def Let_def by simp
  also have "\<dots> = Inr (data @ concat (replicate ((32 - length data mod 32) mod 32 div 2) ''00''))"
    using False by (intro padded_even) simp
  finally show ?thesis using False by simp
qed

lemma decrypt_padding_raw:
  "decrypt_padding msg False data =
     Inr (EncodeToString data @
          concat (replicate ((32 - (2 * length data) mod 32) mod 32 div 2) ''00''))"
proof -
  have e: "even (length (EncodeToString data))" by (simp add: length_EncodeToString)
  have "decrypt_padding msg False data =
     (if length (EncodeToString data) mod 2 \<noteq> 0 then Inl (Panic msg)
      else (case pad_loop (EncodeToString data) of None \<Rightarrow> Inl NoReturn | Some padded \<Rightarrow> Inr padded))"
    unfolding decrypt_padding_def Let_def by simp
  also have "\<dots> = Inr (EncodeToString data @
      concat (replicate ((32 - length (EncodeToString data) mod 32) mod 32 div 2) ''00''))"
    by (rule padded_even [OF e])
  finally show ?thesis by (simp only: length_EncodeToString)
qed

lemma pad_count:
  assumes "even (n :: nat)"
  shows "2 * ((32 - n mod 32) mod 32 div 2) = (32 - n mod 32) mod 32"
    and "(n + (32 - n mod 32) mod 32) mod 32 = 0"
proof -
  have "even (n mod 32)" using assms by (simp add: dvd_mod_iff)
  then obtain m where m: "n mod 32 = 2 * m" by (auto elim: evenE)
  have "n mod 32 < 32" by simp
  then have m16: "m < 16" using m by linarith
  obtain q where n: "n = 32 * q + 2 * m" using mult_div_mod_eq [of 32 n] m by metis
  show "2 * ((32 - n mod 32) mod 32 div 2) = (32 - n mod 32) mod 32"
    using m m16 by (cases "m = 0") simp_all
  show "(n + (32 - n mod 32) mod 32) mod 32 = 0"
  proof (cases "m = 0")
    case True
    then show ?thesis using m by simp
  next
    case False
    then have "(32 - n mod 32) mod 32 = 32 - 2 * m" using m m16 by simp
    moreover have "n + (32 - 2 * m) = 32 * (q + 1)" unfolding n using m16 by arith
    ultimately show ?thesis by simp
  qed
qed

lemma decrypt_padding_length:
  assumes "decrypt_padding msg hex data = Inr padded"
  shows "length padded mod 32 = 0"
proof (cases hex)
  case True
  with assms have e: "even (length data)"
    and p: "padded = data @ concat (replicate ((32 - length data mod 32) mod 32 div 2) ''00'')"
    by (auto simp: decrypt_padding_hex split: if_splits)
  show ?thesis unfolding p using pad_count [OF e] by (simp add: length_zero_pairs)
next
  case False
  have e: "even (2 * length data)" by simp
  from False assms have
    p: "padded = EncodeToString data @
          concat (replicate ((32 - (2 * length data) mod 32) mod 32 div 2) ''00'')"
    by (simp add: decrypt_padding_raw)
  show ?thesis unfolding p using pad_count [OF e]
    by (simp add: length_zero_pairs length_EncodeToString)
qed

text \<open>
  Claim C1. For every byte sequence \<open>S\<close> of length \<open>L\<close>, every payload that the decrypt-side
  padding produces has a length that is a multiple of 32; a payload is produced unless the hex
  flag is set and \<open>L\<close> is odd; when the hex flag is unset the payload is the lowercase hex
  encoding of \<open>S\<close> (of length \<open>2L\<close>) followed by \<open>(32 - (2L mod 32)) mod 32\<close> characters, which
  are pairs \<open>"00"\<close>.
\<close>

theorem padding_codec_multiple_of_32:
  "(\<forall>padded. decrypt_padding msg hex S = Inr padded \<longrightarrow> length padded mod 32 = 0)
   \<and> ((\<exists>padded. decrypt_padding msg hex S = Inr padded) \<longleftrightarrow> \<not> (hex \<and> odd (length S)))
   \<and> decrypt_padding msg False S =
       Inr (EncodeToString S @
            concat (replicate ((32 - (2 * length S) mod 32) mod 32 div 2) ''00''))
   \<and> length (EncodeToString S) = 2 * length S
   \<and> set (EncodeToString S) \<subseteq> set ''0123456789abcdef''
   \<and> length (concat (replicate ((32 - (2 * length S) mod 32) mod 32 div 2) ''00''))
       = (32 - (2 * length S) mod 32) mod 32"
proof (intro conjI allI impI)
  fix padded
  assume "decrypt_padding msg hex S = Inr padded"
  then show "length padded mod 32 = 0" by (rule decrypt_padding_length)
next
  show "(\<exists>padded. decrypt_padding msg hex S = Inr padded) \<longleftrightarrow> \<not> (hex \<and> odd (length S))"
    by (cases hex) (simp_all add: decrypt_padding_hex decrypt_padding_raw)
next
  show "decrypt_padding msg False S =
       Inr (EncodeToString S @
            concat (replicate ((32 - (2 * length S) mod 32) mod 32 div 2) ''00''))"
    by (rule decrypt_padding_raw)
next
  show "length (EncodeToString S) = 2 * length S" by (rule length_EncodeToString)
next
  show "set (EncodeToString S) \<subseteq> set ''0123456789abcdef''"
    using set_EncodeToString [of S] by (simp only: hextable_def)
next
  have "even (2 * length S)" by simp
  from pad_count(1) [OF this]
  show "length (concat (replicate ((32 - (2 * length S) mod 32) mod 32 div 2) ''00''))
       = (32 - (2 * length S) mod 32) mod 32"
    by (simp only: length_zero_pairs)
qed

theorem padding_codec_multiple_of_32_witness:
  "decrypt_padding odd_msg False ''Some key'' = Inr ''536f6d65206b65790000000000000000''
   \<and> length ''536f6d65206b65790000000000000000'' mod 32 = 0
   \<and> decrypt_padding odd_msg True ''abc'' = Inl (Panic odd_msg)"
proof -
  note inst = padding_codec_multiple_of_32 [of odd_msg False "''Some key''"]
  have v: "EncodeToString ''Some key'' @
        concat (replicate ((32 - (2 * length ''Some key'') mod 32) mod 32 div 2) ''00'')
      = ''536f6d65206b65790000000000000000''"
    by code_simp
  have a: "decrypt_padding odd_msg False ''Some key'' = Inr ''536f6d65206b65790000000000000000''"
    using inst unfolding v by blast
  have b: "length ''536f6d65206b65790000000000000000'' mod 32 = 0"
    using inst a by blast
  have "\<not> (\<exists>padded. decrypt_padding odd_msg True ''abc'' = Inr padded)"
    using padding_codec_multiple_of_32 [of odd_msg True "''abc''"] by simp
  then have c: "decrypt_padding odd_msg True ''abc'' = Inl (Panic odd_msg)"
    by (simp add: decrypt_padding_hex)
  show ?thesis using a b c by blast
qed

section \<open>The trace of a run, phase by phase\<close>

lemma collect_Nil [simp]: "collect g [] = []"
  by (simp add: collect_def)

lemma collect_Cons [simp]: "collect g (e # t) = g e @ collect g t"
  by (simp add: collect_def)

lemma collect_append [simp]: "collect g (t @ u) = collect g t @ collect g u"
  by (simp add: collect_def)

lemma collect_say [simp]: "collect g (say b e) = (if b then g e else [])"
  by (simp add: say_def)

lemma fst_after [simp]: "fst (after t r) = t @ fst r"
  by (simp add: after_def)

lemma snd_after [simp]: "snd (after t r) = snd r"
  by (simp add: after_def)

lemma fst_andThen:
  "fst (andThen m k) = (case snd m of Inl out \<Rightarrow> fst m | Inr a \<Rightarrow> fst m @ fst (k a))"
  by (simp add: andThen_def split: sum.splits)

lemma snd_andThen:
  "snd (andThen m k) = (case snd m of Inl out \<Rightarrow> out | Inr a \<Rightarrow> snd (k a))"
  by (simp add: andThen_def split: sum.splits)

lemma snd_run_deferred [simp]: "snd (run_deferred d r) = snd r"
  by (simp add: run_deferred_def split: outcome.splits)

lemma fst_run_deferred:
  "fst (run_deferred d r) =
     fst r @ (case snd r of Exit c \<Rightarrow> [] | NoReturn \<Rightarrow> [] | _ \<Rightarrow> d)"
  by (simp add: run_deferred_def split: outcome.splits)

lemma collect_stat_in_dirs:
  "(\<And>p. g (Stat p) = []) \<Longrightarrow> collect g (fst (stat_in_dirs w name dirs)) = []"
  by (induction dirs) simp_all

lemma collect_checkIfExecutableExists:
  "(\<And>p. g (Stat p) = []) \<Longrightarrow> g (Getenv ''PATH'') = []
     \<Longrightarrow> collect g (fst (checkIfExecutableExists w name)) = []"
  by (simp add: checkIfExecutableExists_def collect_stat_in_dirs)

lemma collect_find_askpass:
  "(\<And>p. g (Stat p) = []) \<Longrightarrow> g (Getenv ''PATH'') = [] \<Longrightarrow> (\<And>s. g (Stderr s) = [])
     \<Longrightarrow> collect g (fst (find_askpass f w)) = []"
  by (simp add: find_askpass_def collect_checkIfExecutableExists)

lemma collect_run_deferred:
  "collect g d = [] \<Longrightarrow> collect g (fst (run_deferred d r)) = collect g (fst r)"
  by (simp add: fst_run_deferred split: outcome.splits)

lemma collect_deferred_close: "g Pinentry_Close = [] \<Longrightarrow> collect g (deferred_close f) = []"
  by (simp add: deferred_close_def)

lemma collect_acquire_input:
  "(\<And>s. g (msg s) = []) \<Longrightarrow> (\<And>s. g (Stderr s) = []) \<Longrightarrow> g ReadAll_Stdin = []
     \<Longrightarrow> (\<And>name. g (ReadFile name) = [])
     \<Longrightarrow> collect g (fst (acquire_input msg f w)) = g (Getenv ''TREZOR_CIPHER_VALUE'')"
  by (simp add: acquire_input_def Let_def checkError_def split: sum.splits)

lemma collect_read_stdin_go:
  "(\<And>s. g (Stdout s) = []) \<Longrightarrow> (\<And>s. g (Stderr s) = []) \<Longrightarrow> g ReadAll_Stdin = []
     \<Longrightarrow> collect g (fst (read_stdin_go f w)) = []"
  by (simp add: read_stdin_go_def checkError_def split: sum.splits)

lemma collect_find_wallet_part_001:
  "g FindAny = [] \<Longrightarrow> collect g (fst (find_wallet_part_001 w)) = []"
  by (simp add: find_wallet_part_001_def split: option.splits)

lemma collect_find_wallet_part_002:
  "(\<And>s. g (Stderr s) = []) \<Longrightarrow> g FindAny = [] \<Longrightarrow> g NewDummy = []
     \<Longrightarrow> (\<And>b. g (SetDefaultAskOnEncode b) = [])
     \<Longrightarrow> collect g (fst (find_wallet_part_002 f w)) = []"
  by (simp add: find_wallet_part_002_def split: option.splits)

lemma collect_set_callbacks:
  "g NewPinentryClient = [] \<Longrightarrow>
     collect g (set_callbacks f askpass) =
       g (SetGetPinFunc (if usePinentryFlag f then getPinFunc_pinentry else askpass)) @
       g (SetGetConfirmFunc getConfirmFunc_deny)"
  by (simp add: set_callbacks_def)

lemma collect_reset_part_001:
  "(\<And>s. g (Stdout s) = []) \<Longrightarrow> collect g (fst (reset_part_001 f wl)) = g Reset"
  by (simp add: reset_part_001_def)

lemma collect_reset_part_002:
  "(\<And>s. g (Stderr s) = []) \<Longrightarrow> collect g (fst (reset_part_002 f wl)) = g Reset"
  by (simp add: reset_part_002_def split: option.splits)

lemma fst_padding_step [simp]: "fst (padding_step msg f data) = []"
  by (simp add: padding_step_def)

lemma collect_cipher_go:
  "collect g (fst (cipher_go f wl data)) =
     g (CipherKeyValue derivation_path_go (encryptFlag f) (keyNameParameter f) data iv_go True True) @
     (if snd (cipher_go f wl data) = Return
      then g (Print (if encryptFlag f \<and> hexFlag f
                    then EncodeToString (fst (wallet_CipherKeyValue wl derivation_path_go
                           (encryptFlag f) (keyNameParameter f) data iv_go True True))
                    else fst (wallet_CipherKeyValue wl derivation_path_go
                           (encryptFlag f) (keyNameParameter f) data iv_go True True)))
      else [])"
  by (simp add: cipher_go_def print_result_def split: prod.splits)

lemma collect_cipher_part_001:
  "collect g (fst (cipher_part_001 f wl data)) =
     g (CipherKeyValue derivation_path (encryptFlag f) (keyNameParameter f) data iv True True) @
     (if snd (cipher_part_001 f wl data) = Return
      then g (Print (if encryptFlag f \<and> hexFlag f
                    then EncodeToString (fst (wallet_CipherKeyValue wl derivation_path
                           (encryptFlag f) (keyNameParameter f) data iv True True))
                    else fst (wallet_CipherKeyValue wl derivation_path
                           (encryptFlag f) (keyNameParameter f) data iv True True)))
      else [])"
  by (simp add: cipher_part_001_def print_result_def split: prod.splits)

lemma collect_cipher_part_002:
  "(\<And>s. g (Stderr s) = []) \<Longrightarrow>
   collect g (fst (cipher_part_002 f wl data)) =
     g (if encryptFlag f then EncryptKey derivation_path data iv (keyNameParameter f)
        else DecryptKey derivation_path data iv (keyNameParameter f)) @
     (case (if encryptFlag f then wallet_EncryptKey wl derivation_path data iv (keyNameParameter f)
            else wallet_DecryptKey wl derivation_path data iv (keyNameParameter f)) of
        Inl err \<Rightarrow> []
      | Inr result \<Rightarrow> g (Print (if encryptFlag f \<and> hexFlag f then EncodeToString result else result)))"
  by (simp add: cipher_part_002_def print_result_def split: sum.splits)

lemmas collect_phases =
  collect_run_deferred collect_deferred_close collect_acquire_input collect_read_stdin_go
  collect_find_askpass collect_find_wallet_part_001 collect_find_wallet_part_002
  collect_set_callbacks collect_reset_part_001 collect_reset_part_002
  collect_cipher_go collect_cipher_part_001 collect_cipher_part_002

lemma payloads_main_go:
  "payloads (fst (main_go f w)) = [] \<or>
   (\<exists>data p. ioutil_ReadAll_Stdin w = Inr data
       \<and> snd (padding_step odd_msg f data) = Inr p
       \<and> payloads (fst (main_go f w)) = [p])"
  by (simp add: main_go_def payloads_def usage_required_def fst_andThen collect_phases
        split: sum.splits) (simp add: read_stdin_go_def split: sum.splits)

lemma payloads_main_part_001:
  "payloads (fst (main_part_001 f w)) = [] \<or>
   (\<exists>data p. snd (acquire_input Stdout f w) = Inr data
       \<and> snd (padding_step odd_msg f data) = Inr p
       \<and> payloads (fst (main_part_001 f w)) = [p])"
  by (simp add: main_part_001_def payloads_def usage_required_def fst_andThen collect_phases
        split: sum.splits)

lemma payloads_main_part_002:
  "payloads (fst (main_part_002 f w)) = [] \<or>
   (\<exists>data p. snd (acquire_input Stderr f w) = Inr data
       \<and> snd (padding_step odd_msg_part_002 f data) = Inr p
       \<and> payloads (fst (main_part_002 f w)) = [p])"
  by (simp add: main_part_002_def payloads_def usage_required_def fst_andThen collect_phases
        split: sum.splits)

section \<open>The payload handed to the device\<close>

lemma snd_padding_step:
  "snd (padding_step msg f data) =
     (if decryptFlag f then decrypt_padding msg (hexFlag f) data else Inr data)"
  by (simp add: padding_step_def)

lemma snd_read_stdin_go:
  "snd (read_stdin_go f w) =
     (case ioutil_ReadAll_Stdin w of Inl err \<Rightarrow> Inl (Exit (- 1)) | Inr d \<Rightarrow> Inr d)"
  by (simp add: read_stdin_go_def split: sum.splits)

lemma snd_acquire_input:
  "snd (acquire_input msg f w) =
     (if os_Getenv w ''TREZOR_CIPHER_VALUE'' \<noteq> [] then Inr (os_Getenv w ''TREZOR_CIPHER_VALUE'')
      else (case (if inputValueFileParameter f = ''-'' then ioutil_ReadAll_Stdin w
                  else ioutil_ReadFile w (inputValueFileParameter f)) of
              Inl err \<Rightarrow> Inl (Exit (- 1))
            | Inr d \<Rightarrow> Inr d))"
  by (simp add: acquire_input_def Let_def split: sum.splits)

lemma zero_pairs_hex: "set (concat (replicate k ''00'')) \<subseteq> set hextable"
  by (induction k) (simp_all add: hextable_def)

lemma decrypt_padding_raw_hex:
  assumes "decrypt_padding msg False data = Inr p"
  shows "set p \<subseteq> set hextable"
proof -
  from assms have p: "p = EncodeToString data @
      concat (replicate ((32 - (2 * length data) mod 32) mod 32 div 2) ''00'')"
    by (simp add: decrypt_padding_raw)
  show ?thesis unfolding p
    using set_EncodeToString [of data]
      zero_pairs_hex [of "(32 - (2 * length data) mod 32) mod 32 div 2"]
    by (simp only: set_append Un_subset_iff)
qed

lemma mod_32_16: "(n :: nat) mod 32 = 0 \<Longrightarrow> n mod 16 = 0"
proof -
  assume "n mod 32 = 0"
  then have "32 dvd n" by (simp add: dvd_eq_mod_eq_0)
  then have "16 dvd n" by (rule dvd_trans [rotated]) simp
  then show ?thesis by (simp add: dvd_eq_mod_eq_0)
qed

lemma payload_padded:
  assumes "snd (padding_step msg f data) = Inr p"
  shows "(decryptFlag f \<longrightarrow> length p mod 32 = 0 \<and> length p mod 16 = 0)
         \<and> (\<not> decryptFlag f \<longrightarrow> p = data)"
  using assms decrypt_padding_length [of msg "hexFlag f" data p] mod_32_16 [of "length p"]
  by (auto simp: snd_padding_step split: if_splits)

lemma payload_aligned_go:
  assumes "p \<in> set (payloads (fst (main_go f w)))"
  shows "(decryptFlag f \<longrightarrow> length p mod 32 = 0 \<and> length p mod 16 = 0)
     \<and> (\<not> decryptFlag f \<longrightarrow> ioutil_ReadAll_Stdin w = Inr p)"
proof -
  from assms payloads_main_go [of f w] obtain data where
    "ioutil_ReadAll_Stdin w = Inr data" "snd (padding_step odd_msg f data) = Inr p"
    by auto
  then show ?thesis using payload_padded [of odd_msg f data p] by simp
qed

lemma payload_aligned_part_001:
  assumes "p \<in> set (payloads (fst (main_part_001 f w)))"
  shows "(decryptFlag f \<longrightarrow> length p mod 32 = 0 \<and> length p mod 16 = 0)
     \<and> (\<not> decryptFlag f \<longrightarrow> snd (acquire_input Stdout f w) = Inr p)"
proof -
  from assms payloads_main_part_001 [of f w] obtain data where
    "snd (acquire_input Stdout f w) = Inr data" "snd (padding_step odd_msg f data) = Inr p"
    by auto
  then show ?thesis using payload_padded [of odd_msg f data p] by simp
qed

lemma payload_aligned_part_002:
  assumes "p \<in> set (payloads (fst (main_part_002 f w)))"
  shows "(decryptFlag f \<longrightarrow> length p mod 32 = 0 \<and> length p mod 16 = 0)
     \<and> (\<not> decryptFlag f \<longrightarrow> snd (acquire_input Stderr f w) = Inr p)"
proof -
  from assms payloads_main_part_002 [of f w] obtain data where
    "snd (acquire_input Stderr f w) = Inr data"
    "snd (padding_step odd_msg_part_002 f data) = Inr p"
    by auto
  then show ?thesis using payload_padded [of odd_msg_part_002 f data p] by simp
qed

text \<open>
  Claim C2, as amended. When the decrypt flag is set, the payload handed to the device has a
  length that is a multiple of 32, hence of 16, in the three versions. When it is not set
  (encryption), the payload is the input as it was read, of whatever length.
\<close>

theorem payload_aligned_when_decrypting:
  "(\<forall>p \<in> set (payloads (fst (main_go f w))).
       (decryptFlag f \<longrightarrow> length p mod 32 = 0 \<and> length p mod 16 = 0)
     \<and> (\<not> decryptFlag f \<longrightarrow> ioutil_ReadAll_Stdin w = Inr p))
   \<and> (\<forall>p \<in> set (payloads (fst (main_part_001 f w))).
       (decryptFlag f \<longrightarrow> length p mod 32 = 0 \<and> length p mod 16 = 0)
     \<and> (\<not> decryptFlag f \<longrightarrow> snd (acquire_input Stdout f w) = Inr p))
   \<and> (\<forall>p \<in> set (payloads (fst (main_part_002 f w))).
       (decryptFlag f \<longrightarrow> length p mod 32 = 0 \<and> length p mod 16 = 0)
     \<and> (\<not> decryptFlag f \<longrightarrow> snd (acquire_input Stderr f w) = Inr p))"
  using payload_aligned_go [of _ f w] payload_aligned_part_001 [of _ f w]
    payload_aligned_part_002 [of _ f w]
  by blast

lemmas run_defs =
  main_go_def main_part_001_def main_part_002_def andThen_def after_def run_deferred_def say_def
  usage_required_def acquire_input_def read_stdin_go_def checkError_def
  find_askpass_def checkIfExecutableExists_def
  find_wallet_part_001_def find_wallet_part_002_def set_callbacks_def deferred_close_def
  reset_part_001_def reset_part_002_def padding_step_def
  cipher_go_def cipher_part_001_def cipher_part_002_def print_result_def
  flags_default_def world_stdin_def echo_wallet_def askpass_installed_def nothing_installed_def
  cryptsetupAskpassPath_def systemdAskpassPath_def

lemma encode_Some_key: "EncodeToString ''Some key'' = ''536f6d65206b6579''"
  by code_simp

lemma run_part_002_encrypt:
  "main_part_002 (flags_default\<lparr>encryptFlag := True\<rparr>) (world_stdin ''Some key'' askpass_installed) =
     ([Stat ''/lib/cryptsetup/askpass'', Getenv ''TREZOR_CIPHER_VALUE'', ReadAll_Stdin, FindAny,
       SetDefaultAskOnEncode True,
       SetGetPinFunc (getPinFunc_askpass_part_002 False ''/lib/cryptsetup/askpass''),
       SetGetConfirmFunc getConfirmFunc_deny, Reset,
       EncryptKey derivation_path ''Some key'' iv ''unnamed key'', Print ''Some key''],
      Return)"
  by (simp add: run_defs)

lemma run_go_encrypt:
  "main_go (flags_default\<lparr>encryptFlag := True\<rparr>) (world_stdin ''Some key'' askpass_installed) =
     ([Trezor_New, ReadAll_Stdin,
       CipherKeyValue derivation_path_go True ''unnamed key'' ''Some key'' iv_go True True,
       Print ''Some key''],
      Return)"
  by (simp add: run_defs MessageType_MessageType_CipheredKeyValue_def
        MessageType_MessageType_Success_def)

lemma pad_Some_key:
  "decrypt_padding msg False ''Some key'' = Inr ''536f6d65206b65790000000000000000''"
proof -
  have "EncodeToString ''Some key'' @
        concat (replicate ((32 - (2 * length ''Some key'') mod 32) mod 32 div 2) ''00'')
      = ''536f6d65206b65790000000000000000''"
    by code_simp
  then show ?thesis by (simp only: decrypt_padding_raw)
qed

lemma run_part_002_decrypt:
  "main_part_002 (flags_default\<lparr>decryptFlag := True\<rparr>) (world_stdin ''Some key'' askpass_installed) =
     ([Stat ''/lib/cryptsetup/askpass'', Getenv ''TREZOR_CIPHER_VALUE'', ReadAll_Stdin, FindAny,
       SetDefaultAskOnEncode True,
       SetGetPinFunc (getPinFunc_askpass_part_002 False ''/lib/cryptsetup/askpass''),
       SetGetConfirmFunc getConfirmFunc_deny, Reset,
       DecryptKey derivation_path ''536f6d65206b65790000000000000000'' iv ''unnamed key'',
       Print ''536f6d65206b65790000000000000000''],
      Return)"
  by (simp add: run_defs pad_Some_key)

text \<open>Witness for C2 as amended: decrypting and encrypting \<open>"Some key"\<close> read from standard
  input.\<close>

theorem payload_aligned_when_decrypting_witness:
  "payloads (fst (main_part_002 (flags_default\<lparr>decryptFlag := True\<rparr>)
        (world_stdin ''Some key'' askpass_installed))) = [''536f6d65206b65790000000000000000'']
   \<and> length ''536f6d65206b65790000000000000000'' mod 16 = 0
   \<and> payloads (fst (main_go (flags_default\<lparr>encryptFlag := True\<rparr>)
        (world_stdin ''Some key'' askpass_installed))) = [''Some key'']
   \<and> ioutil_ReadAll_Stdin (world_stdin ''Some key'' askpass_installed) = Inr ''Some key''"
proof -
  have a: "payloads (fst (main_part_002 (flags_default\<lparr>decryptFlag := True\<rparr>)
        (world_stdin ''Some key'' askpass_installed))) = [''536f6d65206b65790000000000000000'']"
    by (simp add: run_part_002_decrypt payloads_def)
  have b: "payloads (fst (main_go (flags_default\<lparr>encryptFlag := True\<rparr>)
        (world_stdin ''Some key'' askpass_installed))) = [''Some key'']"
    by (simp add: run_go_encrypt payloads_def)
  have "decryptFlag (flags_default\<lparr>decryptFlag := True\<rparr>)" by simp
  with a payload_aligned_when_decrypting
         [of "flags_default\<lparr>decryptFlag := True\<rparr>" "world_stdin ''Some key'' askpass_installed"]
  have c: "length ''536f6d65206b65790000000000000000'' mod 16 = 0" by simp
  have "\<not> decryptFlag (flags_default\<lparr>encryptFlag := True\<rparr>)" by (simp add: flags_default_def)
  with b payload_aligned_when_decrypting
         [of "flags_default\<lparr>encryptFlag := True\<rparr>" "world_stdin ''Some key'' askpass_installed"]
  have d: "ioutil_ReadAll_Stdin (world_stdin ''Some key'' askpass_installed) = Inr ''Some key''"
    by simp
  show ?thesis using a b c d by simp
qed

text \<open>Counterexample to C2 as stated: encrypting the 8 bytes \<open>"Some key"\<close> hands a payload of
  8 bytes to the device.\<close>

theorem payload_encrypt_not_aligned:
  "payloads (fst (main_part_002 (flags_default\<lparr>encryptFlag := True\<rparr>)
        (world_stdin ''Some key'' askpass_installed))) = [''Some key'']
   \<and> payloads (fst (main_go (flags_default\<lparr>encryptFlag := True\<rparr>)
        (world_stdin ''Some key'' askpass_installed))) = [''Some key'']
   \<and> length ''Some key'' mod 16 = 8"
  by (simp add: run_part_002_encrypt run_go_encrypt payloads_def)

lemma hex_payload:
  assumes "snd (padding_step msg f data) = Inr p" "decryptFlag f" "\<not> hexFlag f"
  shows "set p \<subseteq> set ''0123456789abcdef''"
  using assms decrypt_padding_raw_hex [of msg data p]
  by (simp add: snd_padding_step hextable_def)

lemma raw_payload:
  assumes "snd (padding_step msg f data) = Inr p" "decryptFlag f" "hexFlag f"
  shows "p = data @ concat (replicate ((32 - length data mod 32) mod 32 div 2) ''00'')"
  using assms by (simp add: snd_padding_step decrypt_padding_hex split: if_splits)

lemma payload_hex_go:
  assumes "p \<in> set (payloads (fst (main_go f w)))" "decryptFlag f"
  shows "(\<not> hexFlag f \<longrightarrow> set p \<subseteq> set ''0123456789abcdef'')
     \<and> (hexFlag f \<longrightarrow> (\<exists>data. ioutil_ReadAll_Stdin w = Inr data
            \<and> p = data @ concat (replicate ((32 - length data mod 32) mod 32 div 2) ''00'')))"
proof -
  from assms payloads_main_go [of f w] obtain data where
    d: "ioutil_ReadAll_Stdin w = Inr data" "snd (padding_step odd_msg f data) = Inr p"
    by auto
  show ?thesis
    using d hex_payload [OF d(2) assms(2)] raw_payload [OF d(2) assms(2)] by blast
qed

lemma payload_hex_part_001:
  assumes "p \<in> set (payloads (fst (main_part_001 f w)))" "decryptFlag f"
  shows "(\<not> hexFlag f \<longrightarrow> set p \<subseteq> set ''0123456789abcdef'')
     \<and> (hexFlag f \<longrightarrow> (\<exists>data. snd (acquire_input Stdout f w) = Inr data
            \<and> p = data @ concat (replicate ((32 - length data mod 32) mod 32 div 2) ''00'')))"
proof -
  from assms payloads_main_part_001 [of f w] obtain data where
    d: "snd (acquire_input Stdout f w) = Inr data" "snd (padding_step odd_msg f data) = Inr p"
    by auto
  show ?thesis
    using d hex_payload [OF d(2) assms(2)] raw_payload [OF d(2) assms(2)] by blast
qed

lemma payload_hex_part_002:
  assumes "p \<in> set (payloads (fst (main_part_002 f w)))" "decryptFlag f"
  shows "(\<not> hexFlag f \<longrightarrow> set p \<subseteq> set ''0123456789abcdef'')
     \<and> (hexFlag f \<longrightarrow> (\<exists>data. snd (acquire_input Stderr f w) = Inr data
            \<and> p = data @ concat (replicate ((32 - length data mod 32) mod 32 div 2) ''00'')))"
proof -
  from assms payloads_main_part_002 [of f w] obtain data where
    d: "snd (acquire_input Stderr f w) = Inr data"
       "snd (padding_step odd_msg_part_002 f data) = Inr p"
    by auto
  show ?thesis
    using d hex_payload [OF d(2) assms(2)] raw_payload [OF d(2) assms(2)] by blast
qed

text \<open>
  Claim C10. On decrypt with the hex flag unset, every byte of the payload handed to the device
  is one of \<open>0123456789abcdef\<close>. With the hex flag set, the payload is the input itself followed
  by \<open>"00"\<close> pairs, whatever its bytes are: the only check, on the parity of the length,
  does not look at them.
\<close>

theorem decrypt_payload_bytes:
  "(decryptFlag f \<longrightarrow>
      (\<forall>p \<in> set (payloads (fst (main_go f w))).
         (\<not> hexFlag f \<longrightarrow> set p \<subseteq> set ''0123456789abcdef'')
       \<and> (hexFlag f \<longrightarrow> (\<exists>data. ioutil_ReadAll_Stdin w = Inr data
            \<and> p = data @ concat (replicate ((32 - length data mod 32) mod 32 div 2) ''00''))))
    \<and> (\<forall>p \<in> set (payloads (fst (main_part_001 f w))).
         (\<not> hexFlag f \<longrightarrow> set p \<subseteq> set ''0123456789abcdef'')
       \<and> (hexFlag f \<longrightarrow> (\<exists>data. snd (acquire_input Stdout f w) = Inr data
            \<and> p = data @ concat (replicate ((32 - length data mod 32) mod 32 div 2) ''00''))))
    \<and> (\<forall>p \<in> set (payloads (fst (main_part_002 f w))).
         (\<not> hexFlag f \<longrightarrow> set p \<subseteq> set ''0123456789abcdef'')
       \<and> (hexFlag f \<longrightarrow> (\<exists>data. snd (acquire_input Stderr f w) = Inr data
            \<and> p = data @ concat (replicate ((32 - length data mod 32) mod 32 div 2) ''00'')))))
   \<and> (even (length data) \<longrightarrow>
        decrypt_padding msg True data =
          Inr (data @ concat (replicate ((32 - length data mod 32) mod 32 div 2) ''00'')))"
  using payload_hex_go [of _ f w] payload_hex_part_001 [of _ f w] payload_hex_part_002 [of _ f w]
    decrypt_padding_hex [of msg data]
  by (intro conjI impI ballI) simp_all

lemma run_part_002_decrypt_hex:
  "main_part_002 (flags_default\<lparr>decryptFlag := True, hexFlag := True\<rparr>)
      (world_stdin not_hex askpass_installed) =
     ([Stat ''/lib/cryptsetup/askpass'', Getenv ''TREZOR_CIPHER_VALUE'', ReadAll_Stdin, FindAny,
       SetDefaultAskOnEncode True,
       SetGetPinFunc (getPinFunc_askpass_part_002 False ''/lib/cryptsetup/askpass''),
       SetGetConfirmFunc getConfirmFunc_deny, Reset,
       DecryptKey derivation_path ''Zz!?-_00000000000000000000000000'' iv ''unnamed key'',
       Print ''Zz!?-_00000000000000000000000000''],
      Return)"
proof -
  have "concat (replicate ((32 - length not_hex mod 32) mod 32 div 2) ''00'')
      = ''00000000000000000000000000''"
    unfolding not_hex_def by code_simp
  then have "decrypt_padding odd_msg_part_002 True not_hex
      = Inr ''Zz!?-_00000000000000000000000000''"
    by (simp add: decrypt_padding_hex) (simp add: not_hex_def)
  then show ?thesis by (simp add: run_defs)
qed

text \<open>Witness for C10: decrypting \<open>"Some key"\<close> without the hex flag, and the six bytes
  \<open>Zz!?-_\<close> with it.\<close>

theorem decrypt_payload_bytes_witness:
  "payloads (fst (main_part_002 (flags_default\<lparr>decryptFlag := True\<rparr>)
        (world_stdin ''Some key'' askpass_installed))) = [''536f6d65206b65790000000000000000'']
   \<and> set ''536f6d65206b65790000000000000000'' \<subseteq> set ''0123456789abcdef''
   \<and> payloads (fst (main_part_002 (flags_default\<lparr>decryptFlag := True, hexFlag := True\<rparr>)
        (world_stdin not_hex askpass_installed))) = [''Zz!?-_00000000000000000000000000'']
   \<and> even (length ''Zz!?-_'')
   \<and> decrypt_padding odd_msg True ''Zz!?-_'' = Inr ''Zz!?-_00000000000000000000000000''"
proof -
  have a: "payloads (fst (main_part_002 (flags_default\<lparr>decryptFlag := True\<rparr>)
        (world_stdin ''Some key'' askpass_installed))) = [''536f6d65206b65790000000000000000'']"
    by (simp add: run_part_002_decrypt payloads_def)
  have "decryptFlag (flags_default\<lparr>decryptFlag := True\<rparr>)
      \<and> \<not> hexFlag (flags_default\<lparr>decryptFlag := True\<rparr>)"
    by (simp add: flags_default_def)
  with a decrypt_payload_bytes
         [of "flags_default\<lparr>decryptFlag := True\<rparr>" "world_stdin ''Some key'' askpass_installed"]
  have b: "set ''536f6d65206b65790000000000000000'' \<subseteq> set ''0123456789abcdef''"
    by simp
  have c: "payloads (fst (main_part_002 (flags_default\<lparr>decryptFlag := True, hexFlag := True\<rparr>)
        (world_stdin not_hex askpass_installed))) = [''Zz!?-_00000000000000000000000000'']"
    by (simp add: run_part_002_decrypt_hex payloads_def)
  have d: "even (length ''Zz!?-_'')" by simp
  have v: "concat (replicate ((32 - length ''Zz!?-_'' mod 32) mod 32 div 2) ''00'')
      = ''00000000000000000000000000''"
    by code_simp
  have e: "decrypt_padding odd_msg True ''Zz!?-_'' = Inr ''Zz!?-_00000000000000000000000000''"
    using decrypt_payload_bytes [of _ _ "''Zz!?-_''" odd_msg] d unfolding v by simp
  show ?thesis using a b c d e by blast
qed

section \<open>How a run ends\<close>

lemma decrypt_padding_cases:
  "decrypt_padding msg hex data =
     (if odd (length (if hex then data else EncodeToString data)) then Inl (Panic msg)
      else Inr ((if hex then data else EncodeToString data) @
                concat (replicate
                  ((32 - length (if hex then data else EncodeToString data) mod 32) mod 32 div 2)
                  ''00'')))"
  by (cases hex) (simp_all add: decrypt_padding_hex decrypt_padding_raw length_EncodeToString)

lemma snd_find_askpass: "snd (find_askpass f w) = Inl out \<Longrightarrow> out = Exit 6"
  by (simp add: find_askpass_def split: if_splits)

lemma snd_find_wallet_part_001:
  "snd (find_wallet_part_001 w) = Inl out \<Longrightarrow> out = Panic no_devices"
  by (simp add: find_wallet_part_001_def split: option.splits if_splits)

lemma snd_find_wallet_part_002: "snd (find_wallet_part_002 f w) = Inl out \<Longrightarrow> out = Exit 1"
  by (simp add: find_wallet_part_002_def split: option.splits if_splits)

lemma snd_reset_part_001:
  "snd (reset_part_001 f wl) =
     (case wallet_Reset wl of Some err \<Rightarrow> Inl (Panic cannot_set) | None \<Rightarrow> Inr ())"
  by (simp add: reset_part_001_def)

lemma snd_reset_part_002:
  "snd (reset_part_002 f wl) =
     (case wallet_Reset wl of Some err \<Rightarrow> Inl (Exit 2) | None \<Rightarrow> Inr ())"
  by (simp add: reset_part_002_def split: option.splits)

lemma snd_cipher_go:
  "snd (cipher_go f wl data) =
     (let r = wallet_CipherKeyValue wl derivation_path_go (encryptFlag f) (keyNameParameter f)
                data iv_go True True
      in if snd r = MessageType_MessageType_Success
            \<or> snd r = MessageType_MessageType_CipheredKeyValue
         then Return else Panic_Unexpected_message (snd r) (fst r))"
  by (simp add: cipher_go_def print_result_def Let_def split: prod.splits)

lemma snd_cipher_part_001:
  "snd (cipher_part_001 f wl data) =
     (let r = wallet_CipherKeyValue wl derivation_path (encryptFlag f) (keyNameParameter f)
                data iv True True
      in if snd r = MessageType_MessageType_Success
            \<or> snd r = MessageType_MessageType_CipheredKeyValue
         then Return else Panic_Unexpected_message (snd r) (fst r))"
  by (simp add: cipher_part_001_def print_result_def Let_def split: prod.splits)

lemma snd_cipher_part_002:
  "snd (cipher_part_002 f wl data) =
     (case (if encryptFlag f then wallet_EncryptKey wl derivation_path data iv (keyNameParameter f)
            else wallet_DecryptKey wl derivation_path data iv (keyNameParameter f)) of
        Inl err \<Rightarrow> Exit 3
      | Inr result \<Rightarrow> Return)"
  by (simp add: cipher_part_002_def print_result_def split: sum.splits)

lemma padding_step_Inl:
  "snd (padding_step msg f data) = Inl out \<longleftrightarrow>
     decryptFlag f \<and> odd (length (if hexFlag f then data else EncodeToString data))
     \<and> out = Panic msg"
  by (cases "decryptFlag f"; cases "hexFlag f")
     (auto simp: snd_padding_step decrypt_padding_hex decrypt_padding_raw length_EncodeToString)

lemma cipher_go_no_panic: "snd (cipher_go f wl data) \<noteq> Panic s"
  by (simp add: snd_cipher_go Let_def)

lemma cipher_part_001_no_panic: "snd (cipher_part_001 f wl data) \<noteq> Panic s"
  by (simp add: snd_cipher_part_001 Let_def)

lemma cipher_part_002_no_panic: "snd (cipher_part_002 f wl data) \<noteq> Panic s"
  by (simp add: snd_cipher_part_002 split: sum.splits)

lemma snd_main_go:
  "snd (main_go f w) =
     (if helpFlag f then Exit EINVAL
      else if \<not> encryptFlag f \<and> \<not> decryptFlag f then Exit EINVAL
      else (case ioutil_ReadAll_Stdin w of
              Inl err \<Rightarrow> Exit (- 1)
            | Inr data \<Rightarrow>
                (case snd (padding_step odd_msg f data) of
                   Inl out \<Rightarrow> out
                 | Inr padded \<Rightarrow> snd (cipher_go f (trezor_New w) padded))))"
  by (simp add: main_go_def snd_andThen snd_read_stdin_go split: sum.splits)

lemma odd_panic_go:
  "snd (main_go f w) = Panic odd_msg \<longleftrightarrow>
     \<not> helpFlag f \<and> decryptFlag f
     \<and> (\<exists>data. ioutil_ReadAll_Stdin w = Inr data
           \<and> odd (length (if hexFlag f then data else EncodeToString data)))"
proof (cases "helpFlag f \<or> (\<not> encryptFlag f \<and> \<not> decryptFlag f)")
  case True
  then show ?thesis by (auto simp: snd_main_go)
next
  case False
  show ?thesis
  proof (cases "ioutil_ReadAll_Stdin w")
    case (Inl err)
    then show ?thesis using False by (simp add: snd_main_go)
  next
    case (Inr data)
    show ?thesis
    proof (cases "snd (padding_step odd_msg f data)")
      case (Inl out)
      then show ?thesis using False Inr padding_step_Inl [of odd_msg f data out]
        by (simp add: snd_main_go)
    next
      case r: (Inr padded)
      have "\<not> (decryptFlag f \<and> odd (length (if hexFlag f then data else EncodeToString data)))"
        using padding_step_Inl [of odd_msg f data "Panic odd_msg"] r by auto
      then show ?thesis using False Inr r cipher_go_no_panic [of f "trezor_New w" padded odd_msg]
        by (simp add: snd_main_go)
    qed
  qed
qed


lemma panic_texts [simp]:
  "no_devices \<noteq> odd_msg" "cannot_set \<noteq> odd_msg"
  "odd_msg \<noteq> no_devices" "odd_msg \<noteq> cannot_set"
  by (simp_all add: no_devices_def cannot_set_def odd_msg_def)

lemma padding_step_Inr_even:
  "snd (padding_step msg f data) = Inr p \<Longrightarrow> decryptFlag f \<Longrightarrow> hexFlag f \<Longrightarrow> even (length data)"
  using padding_step_Inl [of msg f data "Panic msg"] by auto

lemma snd_acquire_input_Inl: "snd (acquire_input msg f w) = Inl out \<Longrightarrow> out = Exit (- 1)"
  by (simp add: snd_acquire_input split: if_splits sum.splits)

lemma snd_main_part_001:
  "snd (main_part_001 f w) =
     (if helpFlag f then Exit 0
      else if \<not> encryptFlag f \<and> \<not> decryptFlag f then Exit EINVAL
      else (case snd (find_wallet_part_001 w) of
              Inl out \<Rightarrow> out
            | Inr trezorInstance \<Rightarrow>
                (case wallet_Reset trezorInstance of
                   Some err \<Rightarrow> Panic cannot_set
                 | None \<Rightarrow>
                     (case snd (acquire_input Stdout f w) of
                        Inl out \<Rightarrow> out
                      | Inr data \<Rightarrow>
                          (case snd (padding_step odd_msg f data) of
                             Inl out \<Rightarrow> out
                           | Inr padded \<Rightarrow> snd (cipher_part_001 f trezorInstance padded))))))"
  by (simp add: main_part_001_def snd_andThen snd_reset_part_001 split: sum.splits option.splits)

lemma snd_main_part_002:
  "snd (main_part_002 f w) =
     (if helpFlag f then Exit 0
      else if \<not> encryptFlag f \<and> \<not> decryptFlag f then Exit EINVAL
      else (case snd (find_askpass f w) of
              Inl out \<Rightarrow> out
            | Inr askpassPath \<Rightarrow>
                (case snd (acquire_input Stderr f w) of
                   Inl out \<Rightarrow> out
                 | Inr data \<Rightarrow>
                     (case snd (find_wallet_part_002 f w) of
                        Inl out \<Rightarrow> out
                      | Inr wallet \<Rightarrow>
                          (case wallet_Reset wallet of
                             Some err \<Rightarrow> Exit 2
                           | None \<Rightarrow>
                               (case snd (padding_step odd_msg_part_002 f data) of
                                  Inl out \<Rightarrow> out
                                | Inr padded \<Rightarrow> snd (cipher_part_002 f wallet padded)))))))"
  by (simp add: main_part_002_def snd_andThen snd_reset_part_002 split: sum.splits option.splits)

lemma odd_panic_part_001:
  "snd (main_part_001 f w) = Panic odd_msg \<longleftrightarrow>
     \<not> helpFlag f \<and> decryptFlag f
     \<and> (\<exists>wl. snd (find_wallet_part_001 w) = Inr wl \<and> wallet_Reset wl = None)
     \<and> (\<exists>data. snd (acquire_input Stdout f w) = Inr data
           \<and> odd (length (if hexFlag f then data else EncodeToString data)))"
  unfolding snd_main_part_001
  by (auto simp: padding_step_Inl cipher_part_001_no_panic length_EncodeToString
        dest: snd_find_wallet_part_001 snd_acquire_input_Inl padding_step_Inr_even
        split: sum.splits option.splits)

lemma odd_panic_part_002:
  "snd (main_part_002 f w) = Panic odd_msg_part_002 \<longleftrightarrow>
     \<not> helpFlag f \<and> decryptFlag f
     \<and> (\<exists>askpassPath. snd (find_askpass f w) = Inr askpassPath)
     \<and> (\<exists>wl. snd (find_wallet_part_002 f w) = Inr wl \<and> wallet_Reset wl = None)
     \<and> (\<exists>data. snd (acquire_input Stderr f w) = Inr data
           \<and> odd (length (if hexFlag f then data else EncodeToString data)))"
  unfolding snd_main_part_002
  by (auto simp: padding_step_Inl cipher_part_002_no_panic length_EncodeToString
        dest: snd_find_askpass snd_find_wallet_part_002 snd_acquire_input_Inl padding_step_Inr_even
        split: sum.splits option.splits)


text \<open>
  Claim C6. The decrypt block panics exactly when the hex text (the input hex-encoded when the
  hex flag is unset, the input itself when it is set) has odd length, and in no other way. A
  run ends in that panic exactly when it reaches the block with the decrypt flag set and such a
  text. With the hex flag unset the hex text has even length, so the panic cannot happen.
\<close>

theorem odd_length_is_the_fatal_case:
  "(decrypt_padding msg hex data = Inl (Panic msg)
      \<longleftrightarrow> odd (length (if hex then data else EncodeToString data)))
   \<and> (\<forall>out. decrypt_padding msg hex data = Inl out \<longrightarrow> out = Panic msg)
   \<and> (\<exists>padded. decrypt_padding msg False data = Inr padded)
   \<and> (snd (main_go f w) = Panic odd_msg \<longleftrightarrow>
        \<not> helpFlag f \<and> decryptFlag f
        \<and> (\<exists>data. ioutil_ReadAll_Stdin w = Inr data
              \<and> odd (length (if hexFlag f then data else EncodeToString data))))
   \<and> (snd (main_part_001 f w) = Panic odd_msg \<longleftrightarrow>
        \<not> helpFlag f \<and> decryptFlag f
        \<and> (\<exists>wl. snd (find_wallet_part_001 w) = Inr wl \<and> wallet_Reset wl = None)
        \<and> (\<exists>data. snd (acquire_input Stdout f w) = Inr data
              \<and> odd (length (if hexFlag f then data else EncodeToString data))))
   \<and> (snd (main_part_002 f w) = Panic odd_msg_part_002 \<longleftrightarrow>
        \<not> helpFlag f \<and> decryptFlag f
        \<and> (\<exists>askpassPath. snd (find_askpass f w) = Inr askpassPath)
        \<and> (\<exists>wl. snd (find_wallet_part_002 f w) = Inr wl \<and> wallet_Reset wl = None)
        \<and> (\<exists>data. snd (acquire_input Stderr f w) = Inr data
              \<and> odd (length (if hexFlag f then data else EncodeToString data))))
   \<and> (\<not> hexFlag f \<longrightarrow>
        snd (main_go f w) \<noteq> Panic odd_msg
        \<and> snd (main_part_001 f w) \<noteq> Panic odd_msg
        \<and> snd (main_part_002 f w) \<noteq> Panic odd_msg_part_002)"
proof -
  have a: "decrypt_padding msg hex data = Inl (Panic msg)
      \<longleftrightarrow> odd (length (if hex then data else EncodeToString data))"
    by (simp add: decrypt_padding_cases)
  have b: "\<forall>out. decrypt_padding msg hex data = Inl out \<longrightarrow> out = Panic msg"
    by (simp add: decrypt_padding_cases)
  have c: "\<exists>padded. decrypt_padding msg False data = Inr padded"
    by (simp add: decrypt_padding_raw)
  have d: "\<not> hexFlag f \<longrightarrow>
        snd (main_go f w) \<noteq> Panic odd_msg
        \<and> snd (main_part_001 f w) \<noteq> Panic odd_msg
        \<and> snd (main_part_002 f w) \<noteq> Panic odd_msg_part_002"
    by (simp add: odd_panic_go odd_panic_part_001 odd_panic_part_002 length_EncodeToString)
  show ?thesis
    by (intro conjI a b c d odd_panic_go odd_panic_part_001 odd_panic_part_002)
qed

lemma run_go_decrypt_hex_odd:
  "main_go (flags_default\<lparr>decryptFlag := True, hexFlag := True\<rparr>)
      (world_stdin ''abc'' askpass_installed) = ([Trezor_New, ReadAll_Stdin], Panic odd_msg)"
  by (simp add: run_defs decrypt_padding_hex)

text \<open>Witness for C6: decrypting the three bytes \<open>abc\<close>, with and without the hex flag.\<close>

theorem odd_length_is_the_fatal_case_witness:
  "snd (main_go (flags_default\<lparr>decryptFlag := True, hexFlag := True\<rparr>)
      (world_stdin ''abc'' askpass_installed)) = Panic odd_msg
   \<and> odd (length ''abc'')
   \<and> snd (main_go (flags_default\<lparr>decryptFlag := True\<rparr>)
      (world_stdin ''abc'' askpass_installed)) \<noteq> Panic odd_msg
   \<and> decrypt_padding odd_msg True ''abc'' = Inl (Panic odd_msg)"
proof -
  have a: "snd (main_go (flags_default\<lparr>decryptFlag := True, hexFlag := True\<rparr>)
      (world_stdin ''abc'' askpass_installed)) = Panic odd_msg"
    by (simp add: run_go_decrypt_hex_odd)
  have b: "odd (length ''abc'')" by simp
  have "\<not> hexFlag (flags_default\<lparr>decryptFlag := True\<rparr>)" by (simp add: flags_default_def)
  with odd_length_is_the_fatal_case [of odd_msg True "''abc''"
         "flags_default\<lparr>decryptFlag := True\<rparr>" "world_stdin ''abc'' askpass_installed"]
  have c: "snd (main_go (flags_default\<lparr>decryptFlag := True\<rparr>)
      (world_stdin ''abc'' askpass_installed)) \<noteq> Panic odd_msg"
    by (elim conjE) simp
  have d: "decrypt_padding odd_msg True ''abc'' = Inl (Panic odd_msg)"
    using odd_length_is_the_fatal_case [of odd_msg True "''abc''"
         "flags_default\<lparr>decryptFlag := True\<rparr>" "world_stdin ''abc'' askpass_installed"] b
    by (elim conjE) simp
  show ?thesis by (intro conjI a b c d)
qed

section \<open>The status of the cipher operation\<close>

lemma stdout_read_stdin_go:
  "\<not> verboseFlag f \<Longrightarrow> collect stdout_of (fst (read_stdin_go f w)) = []"
  by (simp add: read_stdin_go_def checkError_def split: sum.splits)

lemma stdout_acquire_input:
  "\<not> verboseFlag f \<Longrightarrow> collect stdout_of (fst (acquire_input msg f w)) = []"
  by (simp add: acquire_input_def Let_def checkError_def say_def split: sum.splits)

lemma stdout_reset_part_001:
  "\<not> verboseFlag f \<Longrightarrow> collect stdout_of (fst (reset_part_001 f wl)) = []"
  by (simp add: reset_part_001_def)

lemma after_after: "after t (after u r) = after (t @ u) r"
  by (simp add: after_def)

lemma andThen_Inr: "snd m = Inr a \<Longrightarrow> andThen m k = after (fst m) (k a)"
  by (simp add: andThen_def)

lemma andThen_Inl: "snd m = Inl out \<Longrightarrow> andThen m k = (fst m, out)"
  by (simp add: andThen_def)

lemma main_go_reaches_cipher:
  assumes "\<not> helpFlag f" "encryptFlag f \<or> decryptFlag f"
    and "ioutil_ReadAll_Stdin w = Inr input"
    and "snd (padding_step odd_msg f input) = Inr data"
  shows "main_go f w =
     after ([Trezor_New] @ fst (read_stdin_go f w) @ say (verboseFlag f) (Stdout sent_request))
       (cipher_go f (trezor_New w) data)"
proof -
  have a: "snd (read_stdin_go f w) = Inr input" using assms(3) by (simp add: snd_read_stdin_go)
  show ?thesis using assms(1,2)
    by (auto simp: main_go_def andThen_Inr [OF a] andThen_Inr [OF assms(4)] after_after)
qed

lemma main_part_001_reaches_cipher:
  assumes "\<not> helpFlag f" "encryptFlag f \<or> decryptFlag f"
    and "cryptoWallet_FindAny w = Some wl" "isTrezor wl" "wallet_Reset wl = None"
    and "snd (acquire_input Stdout f w) = Inr input"
    and "snd (padding_step odd_msg f input) = Inr data"
  shows "main_part_001 f w =
     after [FindAny]
       (run_deferred (deferred_close f)
          (after (set_callbacks f
                    (getPinFunc_askpass_part_001 (verboseFlag f) (askpassPathParameter f)) @
                  fst (reset_part_001 f wl) @ fst (acquire_input Stdout f w) @
                  say (verboseFlag f) (Stdout sent_request))
             (cipher_part_001 f wl data)))"
proof -
  have a: "snd (find_wallet_part_001 w) = Inr wl" "fst (find_wallet_part_001 w) = [FindAny]"
    using assms(3,4) by (simp_all add: find_wallet_part_001_def)
  have b: "snd (reset_part_001 f wl) = Inr ()" using assms(5) by (simp add: snd_reset_part_001)
  show ?thesis using assms(1,2)
    by (auto simp: main_part_001_def andThen_Inr [OF a(1)] andThen_Inr [OF b]
          andThen_Inr [OF assms(6)] andThen_Inr [OF assms(7)] after_after a(2))
qed

lemma cipher_go_result:
  assumes "wallet_CipherKeyValue wl derivation_path_go (encryptFlag f) (keyNameParameter f)
             data iv_go True True = (result, msgType)"
  shows "cipher_go f wl data =
     (if msgType = MessageType_MessageType_Success
         \<or> msgType = MessageType_MessageType_CipheredKeyValue
      then ([CipherKeyValue derivation_path_go (encryptFlag f) (keyNameParameter f) data
               iv_go True True,
             Print (if encryptFlag f \<and> hexFlag f then EncodeToString result else result)],
            Return)
      else ([CipherKeyValue derivation_path_go (encryptFlag f) (keyNameParameter f) data
               iv_go True True],
            Panic_Unexpected_message msgType result))"
  using assms by (simp add: cipher_go_def print_result_def after_def)

lemma cipher_part_001_result:
  assumes "wallet_CipherKeyValue wl derivation_path (encryptFlag f) (keyNameParameter f)
             data iv True True = (result, msgType)"
  shows "cipher_part_001 f wl data =
     (if msgType = MessageType_MessageType_Success
         \<or> msgType = MessageType_MessageType_CipheredKeyValue
      then ([CipherKeyValue derivation_path (encryptFlag f) (keyNameParameter f) data
               iv True True,
             Print (if encryptFlag f \<and> hexFlag f then EncodeToString result else result)],
            Return)
      else ([CipherKeyValue derivation_path (encryptFlag f) (keyNameParameter f) data
               iv True True],
            Panic_Unexpected_message msgType result))"
  using assms by (simp add: cipher_part_001_def print_result_def after_def)

lemma status_go:
  assumes "\<not> helpFlag f" "encryptFlag f \<or> decryptFlag f"
    and "ioutil_ReadAll_Stdin w = Inr input"
    and "snd (padding_step odd_msg f input) = Inr data"
    and "wallet_CipherKeyValue (trezor_New w) derivation_path_go (encryptFlag f)
           (keyNameParameter f) data iv_go True True = (result, msgType)"
  shows "if msgType = MessageType_MessageType_Success
            \<or> msgType = MessageType_MessageType_CipheredKeyValue
         then snd (main_go f w) = Return
              \<and> prints (fst (main_go f w)) =
                  [if encryptFlag f \<and> hexFlag f then EncodeToString result else result]
         else snd (main_go f w) = Panic_Unexpected_message msgType result
              \<and> prints (fst (main_go f w)) = []
              \<and> (\<not> verboseFlag f \<longrightarrow> stdout_writes (fst (main_go f w)) = [])"
  unfolding main_go_reaches_cipher [OF assms(1-4)] cipher_go_result [OF assms(5)]
  by (simp add: prints_def stdout_writes_def collect_read_stdin_go stdout_read_stdin_go)

lemma status_part_001:
  assumes "\<not> helpFlag f" "encryptFlag f \<or> decryptFlag f"
    and "cryptoWallet_FindAny w = Some wl" "isTrezor wl" "wallet_Reset wl = None"
    and "snd (acquire_input Stdout f w) = Inr input"
    and "snd (padding_step odd_msg f input) = Inr data"
    and "wallet_CipherKeyValue wl derivation_path (encryptFlag f)
           (keyNameParameter f) data iv True True = (result, msgType)"
  shows "if msgType = MessageType_MessageType_Success
            \<or> msgType = MessageType_MessageType_CipheredKeyValue
         then snd (main_part_001 f w) = Return
              \<and> prints (fst (main_part_001 f w)) =
                  [if encryptFlag f \<and> hexFlag f then EncodeToString result else result]
         else snd (main_part_001 f w) = Panic_Unexpected_message msgType result
              \<and> prints (fst (main_part_001 f w)) = []
              \<and> (\<not> verboseFlag f \<longrightarrow> stdout_writes (fst (main_part_001 f w)) = [])"
  unfolding main_part_001_reaches_cipher [OF assms(1-7)] cipher_part_001_result [OF assms(8)]
  by (simp add: prints_def stdout_writes_def collect_run_deferred collect_deferred_close
        collect_set_callbacks collect_reset_part_001 collect_acquire_input
        stdout_reset_part_001 stdout_acquire_input)


lemma no_print_unless_return_go:
  assumes "snd (main_go f w) \<noteq> Return"
  shows "prints (fst (main_go f w)) = []"
proof -
  have "prints (fst (main_go f w)) = [] \<or> snd (main_go f w) = Return"
    by (simp add: main_go_def prints_def usage_required_def fst_andThen snd_andThen
          collect_phases split: sum.splits)
  then show ?thesis using assms by blast
qed

lemma no_print_unless_return_part_001:
  assumes "snd (main_part_001 f w) \<noteq> Return"
  shows "prints (fst (main_part_001 f w)) = []"
proof -
  have "prints (fst (main_part_001 f w)) = [] \<or> snd (main_part_001 f w) = Return"
    by (simp add: main_part_001_def prints_def usage_required_def fst_andThen snd_andThen
          collect_phases split: sum.splits)
  then show ?thesis using assms by blast
qed

lemma no_print_unless_return_part_002:
  assumes "snd (main_part_002 f w) \<noteq> Return"
  shows "prints (fst (main_part_002 f w)) = []"
proof -
  have "prints (fst (main_part_002 f w)) = [] \<or> snd (main_part_002 f w) = Return"
    by (simp add: main_part_002_def prints_def usage_required_def fst_andThen snd_andThen
          collect_phases snd_cipher_part_002 split: sum.splits)
  then show ?thesis using assms by blast
qed

lemma unexpected_go:
  assumes "snd (main_go f w) = Panic_Unexpected_message m r"
  shows "m \<noteq> MessageType_MessageType_Success \<and> m \<noteq> MessageType_MessageType_CipheredKeyValue"
  using assms unfolding snd_main_go
  by (auto simp: padding_step_Inl snd_cipher_go Let_def split: sum.splits if_splits)

lemma unexpected_part_001:
  assumes "snd (main_part_001 f w) = Panic_Unexpected_message m r"
  shows "m \<noteq> MessageType_MessageType_Success \<and> m \<noteq> MessageType_MessageType_CipheredKeyValue"
  using assms unfolding snd_main_part_001
  by (auto simp: padding_step_Inl snd_cipher_part_001 Let_def
        dest: snd_find_wallet_part_001 snd_acquire_input_Inl
        split: sum.splits if_splits option.splits)

text \<open>
  Claim C8. In \<open>main.go\<close> and \<open>part_001\<close>, when the run reaches \<open>CipherKeyValue\<close> and the device
  answers \<open>(result, msgType)\<close>: if \<open>msgType\<close> is \<open>Success\<close> or \<open>CipheredKeyValue\<close> the run returns
  and prints the result (hex-encoded under \<open>--encrypt --hex\<close>); otherwise it panics with the
  unexpected message, \<open>fmt.Print\<close> is never called, and without \<open>--verbose\<close> nothing at all is
  written on standard output. That panic has no other cause, and no run that does not return
  prints a result.
\<close>

theorem status_allow_list:
  "(\<not> helpFlag f \<and> (encryptFlag f \<or> decryptFlag f)
      \<and> ioutil_ReadAll_Stdin w = Inr input
      \<and> snd (padding_step odd_msg f input) = Inr data
      \<and> wallet_CipherKeyValue (trezor_New w) derivation_path_go (encryptFlag f)
            (keyNameParameter f) data iv_go True True = (result, msgType)
    \<longrightarrow> (if msgType = MessageType_MessageType_Success
             \<or> msgType = MessageType_MessageType_CipheredKeyValue
          then snd (main_go f w) = Return
               \<and> prints (fst (main_go f w)) =
                   [if encryptFlag f \<and> hexFlag f then EncodeToString result else result]
          else snd (main_go f w) = Panic_Unexpected_message msgType result
               \<and> prints (fst (main_go f w)) = []
               \<and> (\<not> verboseFlag f \<longrightarrow> stdout_writes (fst (main_go f w)) = [])))
   \<and> (\<not> helpFlag f \<and> (encryptFlag f \<or> decryptFlag f)
      \<and> cryptoWallet_FindAny w = Some wl \<and> isTrezor wl \<and> wallet_Reset wl = None
      \<and> snd (acquire_input Stdout f w) = Inr input'
      \<and> snd (padding_step odd_msg f input') = Inr data'
      \<and> wallet_CipherKeyValue wl derivation_path (encryptFlag f)
            (keyNameParameter f) data' iv True True = (result', msgType')
    \<longrightarrow> (if msgType' = MessageType_MessageType_Success
             \<or> msgType' = MessageType_MessageType_CipheredKeyValue
          then snd (main_part_001 f w) = Return
               \<and> prints (fst (main_part_001 f w)) =
                   [if encryptFlag f \<and> hexFlag f then EncodeToString result' else result']
          else snd (main_part_001 f w) = Panic_Unexpected_message msgType' result'
               \<and> prints (fst (main_part_001 f w)) = []
               \<and> (\<not> verboseFlag f \<longrightarrow> stdout_writes (fst (main_part_001 f w)) = [])))
   \<and> (\<forall>m r. snd (main_go f w) = Panic_Unexpected_message m r \<or>
              snd (main_part_001 f w) = Panic_Unexpected_message m r
          \<longrightarrow> m \<noteq> MessageType_MessageType_Success
              \<and> m \<noteq> MessageType_MessageType_CipheredKeyValue)
   \<and> (snd (main_go f w) \<noteq> Return \<longrightarrow> prints (fst (main_go f w)) = [])
   \<and> (snd (main_part_001 f w) \<noteq> Return \<longrightarrow> prints (fst (main_part_001 f w)) = [])"
proof (intro conjI)
  show "\<not> helpFlag f \<and> (encryptFlag f \<or> decryptFlag f)
      \<and> ioutil_ReadAll_Stdin w = Inr input
      \<and> snd (padding_step odd_msg f input) = Inr data
      \<and> wallet_CipherKeyValue (trezor_New w) derivation_path_go (encryptFlag f)
            (keyNameParameter f) data iv_go True True = (result, msgType)
    \<longrightarrow> (if msgType = MessageType_MessageType_Success
             \<or> msgType = MessageType_MessageType_CipheredKeyValue
          then snd (main_go f w) = Return
               \<and> prints (fst (main_go f w)) =
                   [if encryptFlag f \<and> hexFlag f then EncodeToString result else result]
          else snd (main_go f w) = Panic_Unexpected_message msgType result
               \<and> prints (fst (main_go f w)) = []
               \<and> (\<not> verboseFlag f \<longrightarrow> stdout_writes (fst (main_go f w)) = []))"
    using status_go [of f w input data result msgType] by blast
next
  show "\<not> helpFlag f \<and> (encryptFlag f \<or> decryptFlag f)
      \<and> cryptoWallet_FindAny w = Some wl \<and> isTrezor wl \<and> wallet_Reset wl = None
      \<and> snd (acquire_input Stdout f w) = Inr input'
      \<and> snd (padding_step odd_msg f input') = Inr data'
      \<and> wallet_CipherKeyValue wl derivation_path (encryptFlag f)
            (keyNameParameter f) data' iv True True = (result', msgType')
    \<longrightarrow> (if msgType' = MessageType_MessageType_Success
             \<or> msgType' = MessageType_MessageType_CipheredKeyValue
          then snd (main_part_001 f w) = Return
               \<and> prints (fst (main_part_001 f w)) =
                   [if encryptFlag f \<and> hexFlag f then EncodeToString result' else result']
          else snd (main_part_001 f w) = Panic_Unexpected_message msgType' result'
               \<and> prints (fst (main_part_001 f w)) = []
               \<and> (\<not> verboseFlag f \<longrightarrow> stdout_writes (fst (main_part_001 f w)) = []))"
    using status_part_001 [of f w wl input' data' result' msgType'] by blast
next
  show "\<forall>m r. snd (main_go f w) = Panic_Unexpected_message m r \<or>
              snd (main_part_001 f w) = Panic_Unexpected_message m r
          \<longrightarrow> m \<noteq> MessageType_MessageType_Success
              \<and> m \<noteq> MessageType_MessageType_CipheredKeyValue"
    using unexpected_go [of f w] unexpected_part_001 [of f w] by blast
next
  show "snd (main_go f w) \<noteq> Return \<longrightarrow> prints (fst (main_go f w)) = []"
    using no_print_unless_return_go by blast
next
  show "snd (main_part_001 f w) \<noteq> Return \<longrightarrow> prints (fst (main_part_001 f w)) = []"
    using no_print_unless_return_part_001 by blast
qed


text \<open>Witness for C8: encrypting \<open>"Some key"\<close> with a device that answers with message type 3,
  and with the echo device.\<close>

theorem status_allow_list_witness:
  "snd (main_go (flags_default\<lparr>encryptFlag := True\<rparr>) (world_refusing ''Some key''))
     = Panic_Unexpected_message 3 ''denied''
   \<and> prints (fst (main_go (flags_default\<lparr>encryptFlag := True\<rparr>) (world_refusing ''Some key''))) = []
   \<and> stdout_writes (fst (main_go (flags_default\<lparr>encryptFlag := True\<rparr>)
         (world_refusing ''Some key''))) = []
   \<and> snd (main_part_001 (flags_default\<lparr>encryptFlag := True\<rparr>) (world_refusing ''Some key''))
     = Panic_Unexpected_message 3 ''denied''
   \<and> prints (fst (main_part_001 (flags_default\<lparr>encryptFlag := True\<rparr>)
         (world_refusing ''Some key''))) = []
   \<and> snd (main_go (flags_default\<lparr>encryptFlag := True\<rparr>)
         (world_stdin ''Some key'' askpass_installed)) = Return
   \<and> prints (fst (main_go (flags_default\<lparr>encryptFlag := True\<rparr>)
         (world_stdin ''Some key'' askpass_installed))) = [''Some key'']"
proof -
  let ?f = "flags_default\<lparr>encryptFlag := True\<rparr>"
  let ?w = "world_refusing ''Some key''"
  let ?v = "world_stdin ''Some key'' askpass_installed"
  have flags: "\<not> helpFlag ?f" "encryptFlag ?f \<or> decryptFlag ?f" "\<not> verboseFlag ?f"
    "\<not> (encryptFlag ?f \<and> hexFlag ?f)"
    by (simp_all add: flags_default_def)
  have pad: "snd (padding_step odd_msg ?f ''Some key'') = Inr ''Some key''"
    by (simp add: padding_step_def flags_default_def)
  have rd: "ioutil_ReadAll_Stdin ?w = Inr ''Some key''" "ioutil_ReadAll_Stdin ?v = Inr ''Some key''"
    by (simp_all add: world_refusing_def world_stdin_def)
  have acq: "snd (acquire_input Stdout ?f ?w) = Inr ''Some key''"
    by (simp add: snd_acquire_input world_refusing_def world_stdin_def flags_default_def)
  have dev: "cryptoWallet_FindAny ?w = Some refusing_wallet" "isTrezor refusing_wallet"
    "wallet_Reset refusing_wallet = None" "trezor_New ?w = refusing_wallet"
    "trezor_New ?v = echo_wallet"
    by (simp_all add: world_refusing_def world_stdin_def refusing_wallet_def echo_wallet_def)
  have ans: "wallet_CipherKeyValue refusing_wallet derivation_path_go (encryptFlag ?f)
        (keyNameParameter ?f) ''Some key'' iv_go True True = (''denied'', 3)"
    "wallet_CipherKeyValue refusing_wallet derivation_path (encryptFlag ?f)
        (keyNameParameter ?f) ''Some key'' iv True True = (''denied'', 3)"
    "wallet_CipherKeyValue echo_wallet derivation_path_go (encryptFlag ?f)
        (keyNameParameter ?f) ''Some key'' iv_go True True
       = (''Some key'', MessageType_MessageType_CipheredKeyValue)"
    by (simp_all add: refusing_wallet_def echo_wallet_def)
  have no: "(3::int) \<noteq> MessageType_MessageType_Success"
    "(3::int) \<noteq> MessageType_MessageType_CipheredKeyValue"
    by (simp_all add: MessageType_MessageType_Success_def
          MessageType_MessageType_CipheredKeyValue_def)
  note t1 = status_allow_list [of ?f ?w "''Some key''" "''Some key''" "''denied''" 3
      refusing_wallet "''Some key''" "''Some key''" "''denied''" 3]
  note t2 = status_allow_list [of ?f ?v "''Some key''" "''Some key''" "''Some key''"
      MessageType_MessageType_CipheredKeyValue]
  have a: "snd (main_go ?f ?w) = Panic_Unexpected_message 3 ''denied''
      \<and> prints (fst (main_go ?f ?w)) = [] \<and> stdout_writes (fst (main_go ?f ?w)) = []"
    using t1 flags pad rd(1) dev(4) ans(1) no by simp
  have b: "snd (main_part_001 ?f ?w) = Panic_Unexpected_message 3 ''denied''
      \<and> prints (fst (main_part_001 ?f ?w)) = []"
    using t1 flags pad acq dev(1-3) ans(2) no by simp
  have c: "snd (main_go ?f ?v) = Return \<and> prints (fst (main_go ?f ?v)) = [''Some key'']"
    using t2 flags pad rd(2) dev(5) ans(3) by simp
  show ?thesis using a b c by blast
qed

section \<open>Acquiring the input\<close>

lemma acquire_input_env:
  "os_Getenv w ''TREZOR_CIPHER_VALUE'' \<noteq> [] \<Longrightarrow>
     acquire_input msg f w =
       ([Getenv ''TREZOR_CIPHER_VALUE''], Inr (os_Getenv w ''TREZOR_CIPHER_VALUE''))"
  by (simp add: acquire_input_def)

lemma reads_acquire_input:
  assumes "\<And>s. read_of (msg s) = []"
  shows "reads (fst (acquire_input msg f w)) =
     (if os_Getenv w ''TREZOR_CIPHER_VALUE'' \<noteq> [] then []
      else if inputValueFileParameter f = ''-'' then [ReadAll_Stdin]
      else [ReadFile (inputValueFileParameter f)])"
  using assms
  by (simp add: acquire_input_def reads_def Let_def checkError_def split: sum.splits)

lemma read_error_part_002:
  assumes "\<not> helpFlag f" "encryptFlag f \<or> decryptFlag f"
    and "snd (find_askpass f w) = Inr askpassPath"
    and "snd (acquire_input Stderr f w) = Inl out"
  shows "main_part_002 f w =
     (fst (find_askpass f w) @ fst (acquire_input Stderr f w), Exit (- 1))"
proof -
  have "out = Exit (- 1)" using assms(4) by (rule snd_acquire_input_Inl)
  then show ?thesis using assms
    by (auto simp: main_part_002_def andThen_Inr [OF assms(3)] andThen_Inl [OF assms(4)]
          after_def)
qed

lemma read_error_part_001:
  assumes "\<not> helpFlag f" "encryptFlag f \<or> decryptFlag f"
    and "snd (find_wallet_part_001 w) = Inr wl" "wallet_Reset wl = None"
    and "snd (acquire_input Stdout f w) = Inl out"
  shows "main_part_001 f w =
     (fst (find_wallet_part_001 w) @
      set_callbacks f (getPinFunc_askpass_part_001 (verboseFlag f) (askpassPathParameter f)) @
      fst (reset_part_001 f wl) @ fst (acquire_input Stdout f w), Exit (- 1))"
proof -
  have o: "out = Exit (- 1)" using assms(5) by (rule snd_acquire_input_Inl)
  have b: "snd (reset_part_001 f wl) = Inr ()" using assms(4) by (simp add: snd_reset_part_001)
  show ?thesis using assms(1,2) o
    by (auto simp: main_part_001_def andThen_Inr [OF assms(3)] andThen_Inr [OF b]
          andThen_Inl [OF assms(5)] after_def run_deferred_def)
qed

lemma read_error_silent_part_002:
  assumes "\<not> helpFlag f" "encryptFlag f \<or> decryptFlag f"
    and "snd (find_askpass f w) = Inr askpassPath"
    and "snd (acquire_input Stderr f w) = Inl out"
  shows "snd (main_part_002 f w) = Exit (- 1)
     \<and> stdout_writes (fst (main_part_002 f w)) = []
     \<and> payloads (fst (main_part_002 f w)) = []"
  unfolding read_error_part_002 [OF assms]
  by (simp add: stdout_writes_def payloads_def collect_find_askpass collect_acquire_input)

lemma read_error_silent_part_001:
  assumes "\<not> helpFlag f" "encryptFlag f \<or> decryptFlag f"
    and "snd (find_wallet_part_001 w) = Inr wl" "wallet_Reset wl = None"
    and "snd (acquire_input Stdout f w) = Inl out"
  shows "snd (main_part_001 f w) = Exit (- 1)
     \<and> prints (fst (main_part_001 f w)) = []
     \<and> (\<not> verboseFlag f \<longrightarrow> stdout_writes (fst (main_part_001 f w)) = [])
     \<and> payloads (fst (main_part_001 f w)) = []"
  unfolding read_error_part_001 [OF assms]
  by (simp add: stdout_writes_def payloads_def prints_def collect_find_wallet_part_001
        collect_set_callbacks collect_reset_part_001 collect_acquire_input
        stdout_reset_part_001 stdout_acquire_input)

text \<open>
  Claim C4. In \<open>part_001\<close> and \<open>part_002\<close>: when \<open>TREZOR_CIPHER_VALUE\<close> is not empty its bytes are
  the input and neither standard input nor a file is read; otherwise, with the input path
  \<open>-\<close>, standard input is read to its end; otherwise the named file is read. A read error ends
  the run with \<open>os.Exit(-1)\<close>: the device gets no payload and no result is printed (nothing
  at all is written on standard output in \<open>part_002\<close>, nor in \<open>part_001\<close> without \<open>--verbose\<close>).
\<close>

theorem input_resolution:
  "(os_Getenv w ''TREZOR_CIPHER_VALUE'' \<noteq> [] \<longrightarrow>
      acquire_input Stdout f w =
        ([Getenv ''TREZOR_CIPHER_VALUE''], Inr (os_Getenv w ''TREZOR_CIPHER_VALUE''))
    \<and> acquire_input Stderr f w =
        ([Getenv ''TREZOR_CIPHER_VALUE''], Inr (os_Getenv w ''TREZOR_CIPHER_VALUE'')))
   \<and> (os_Getenv w ''TREZOR_CIPHER_VALUE'' = [] \<and> inputValueFileParameter f = ''-'' \<longrightarrow>
      reads (fst (acquire_input Stdout f w)) = [ReadAll_Stdin]
    \<and> reads (fst (acquire_input Stderr f w)) = [ReadAll_Stdin]
    \<and> snd (acquire_input Stdout f w) =
        (case ioutil_ReadAll_Stdin w of Inl err \<Rightarrow> Inl (Exit (- 1)) | Inr d \<Rightarrow> Inr d)
    \<and> snd (acquire_input Stderr f w) = snd (acquire_input Stdout f w))
   \<and> (os_Getenv w ''TREZOR_CIPHER_VALUE'' = [] \<and> inputValueFileParameter f \<noteq> ''-'' \<longrightarrow>
      reads (fst (acquire_input Stdout f w)) = [ReadFile (inputValueFileParameter f)]
    \<and> reads (fst (acquire_input Stderr f w)) = [ReadFile (inputValueFileParameter f)]
    \<and> snd (acquire_input Stdout f w) =
        (case ioutil_ReadFile w (inputValueFileParameter f) of
           Inl err \<Rightarrow> Inl (Exit (- 1)) | Inr d \<Rightarrow> Inr d)
    \<and> snd (acquire_input Stderr f w) = snd (acquire_input Stdout f w))
   \<and> (\<not> helpFlag f \<and> (encryptFlag f \<or> decryptFlag f)
      \<and> snd (find_askpass f w) = Inr askpassPath
      \<and> snd (acquire_input Stderr f w) = Inl out \<longrightarrow>
      snd (main_part_002 f w) = Exit (- 1)
    \<and> stdout_writes (fst (main_part_002 f w)) = []
    \<and> payloads (fst (main_part_002 f w)) = [])
   \<and> (\<not> helpFlag f \<and> (encryptFlag f \<or> decryptFlag f)
      \<and> snd (find_wallet_part_001 w) = Inr wl \<and> wallet_Reset wl = None
      \<and> snd (acquire_input Stdout f w) = Inl out' \<longrightarrow>
      snd (main_part_001 f w) = Exit (- 1)
    \<and> prints (fst (main_part_001 f w)) = []
    \<and> (\<not> verboseFlag f \<longrightarrow> stdout_writes (fst (main_part_001 f w)) = [])
    \<and> payloads (fst (main_part_001 f w)) = [])"
proof (intro conjI)
  show "os_Getenv w ''TREZOR_CIPHER_VALUE'' \<noteq> [] \<longrightarrow>
      acquire_input Stdout f w =
        ([Getenv ''TREZOR_CIPHER_VALUE''], Inr (os_Getenv w ''TREZOR_CIPHER_VALUE''))
    \<and> acquire_input Stderr f w =
        ([Getenv ''TREZOR_CIPHER_VALUE''], Inr (os_Getenv w ''TREZOR_CIPHER_VALUE''))"
    by (simp add: acquire_input_env)
next
  show "os_Getenv w ''TREZOR_CIPHER_VALUE'' = [] \<and> inputValueFileParameter f = ''-'' \<longrightarrow>
      reads (fst (acquire_input Stdout f w)) = [ReadAll_Stdin]
    \<and> reads (fst (acquire_input Stderr f w)) = [ReadAll_Stdin]
    \<and> snd (acquire_input Stdout f w) =
        (case ioutil_ReadAll_Stdin w of Inl err \<Rightarrow> Inl (Exit (- 1)) | Inr d \<Rightarrow> Inr d)
    \<and> snd (acquire_input Stderr f w) = snd (acquire_input Stdout f w)"
    by (simp add: reads_acquire_input snd_acquire_input)
next
  show "os_Getenv w ''TREZOR_CIPHER_VALUE'' = [] \<and> inputValueFileParameter f \<noteq> ''-'' \<longrightarrow>
      reads (fst (acquire_input Stdout f w)) = [ReadFile (inputValueFileParameter f)]
    \<and> reads (fst (acquire_input Stderr f w)) = [ReadFile (inputValueFileParameter f)]
    \<and> snd (acquire_input Stdout f w) =
        (case ioutil_ReadFile w (inputValueFileParameter f) of
           Inl err \<Rightarrow> Inl (Exit (- 1)) | Inr d \<Rightarrow> Inr d)
    \<and> snd (acquire_input Stderr f w) = snd (acquire_input Stdout f w)"
    by (simp add: reads_acquire_input snd_acquire_input)
next
  show "\<not> helpFlag f \<and> (encryptFlag f \<or> decryptFlag f)
      \<and> snd (find_askpass f w) = Inr askpassPath
      \<and> snd (acquire_input Stderr f w) = Inl out \<longrightarrow>
      snd (main_part_002 f w) = Exit (- 1)
    \<and> stdout_writes (fst (main_part_002 f w)) = []
    \<and> payloads (fst (main_part_002 f w)) = []"
    using read_error_silent_part_002 [of f w askpassPath out] by blast
next
  show "\<not> helpFlag f \<and> (encryptFlag f \<or> decryptFlag f)
      \<and> snd (find_wallet_part_001 w) = Inr wl \<and> wallet_Reset wl = None
      \<and> snd (acquire_input Stdout f w) = Inl out' \<longrightarrow>
      snd (main_part_001 f w) = Exit (- 1)
    \<and> prints (fst (main_part_001 f w)) = []
    \<and> (\<not> verboseFlag f \<longrightarrow> stdout_writes (fst (main_part_001 f w)) = [])
    \<and> payloads (fst (main_part_001 f w)) = []"
    using read_error_silent_part_001 [of f w wl out'] by blast
qed


text \<open>Witness for C4: the value \<open>"test data"\<close> in the environment, \<open>"Some key"\<close> on standard
  input, and a file that cannot be read.\<close>

theorem input_resolution_witness:
  "acquire_input Stderr flags_default (world_env ''test data'') =
     ([Getenv ''TREZOR_CIPHER_VALUE''], Inr ''test data'')
   \<and> reads (fst (acquire_input Stderr flags_default
        (world_stdin ''Some key'' askpass_installed))) = [ReadAll_Stdin]
   \<and> snd (acquire_input Stderr flags_default
        (world_stdin ''Some key'' askpass_installed)) = Inr ''Some key''
   \<and> reads (fst (acquire_input Stderr
        (flags_default\<lparr>encryptFlag := True, inputValueFileParameter := ''/tmp/key''\<rparr>)
        (world_stdin ''Some key'' askpass_installed))) = [ReadFile ''/tmp/key'']
   \<and> snd (main_part_002
        (flags_default\<lparr>encryptFlag := True, inputValueFileParameter := ''/tmp/key''\<rparr>)
        (world_stdin ''Some key'' askpass_installed)) = Exit (- 1)
   \<and> stdout_writes (fst (main_part_002
        (flags_default\<lparr>encryptFlag := True, inputValueFileParameter := ''/tmp/key''\<rparr>)
        (world_stdin ''Some key'' askpass_installed))) = []
   \<and> snd (main_part_001
        (flags_default\<lparr>encryptFlag := True, inputValueFileParameter := ''/tmp/key''\<rparr>)
        (world_stdin ''Some key'' askpass_installed)) = Exit (- 1)
   \<and> prints (fst (main_part_001
        (flags_default\<lparr>encryptFlag := True, inputValueFileParameter := ''/tmp/key''\<rparr>)
        (world_stdin ''Some key'' askpass_installed))) = []"
proof -
  let ?e = "world_env ''test data''"
  let ?w = "world_stdin ''Some key'' askpass_installed"
  let ?f = "flags_default\<lparr>encryptFlag := True, inputValueFileParameter := ''/tmp/key''\<rparr>"
  have env: "os_Getenv ?e ''TREZOR_CIPHER_VALUE'' = ''test data''"
    "os_Getenv ?w ''TREZOR_CIPHER_VALUE'' = []"
    by (simp_all add: world_env_def world_stdin_def)
  have par: "inputValueFileParameter flags_default = ''-''"
    "inputValueFileParameter ?f = ''/tmp/key''"
    "\<not> helpFlag ?f" "encryptFlag ?f \<or> decryptFlag ?f"
    by (simp_all add: flags_default_def)
  have rd: "ioutil_ReadAll_Stdin ?w = Inr ''Some key''"
    "ioutil_ReadFile ?w ''/tmp/key'' = Inl (Error ''no such file or directory'')"
    by (simp_all add: world_stdin_def)
  have a: "acquire_input Stderr flags_default ?e =
     ([Getenv ''TREZOR_CIPHER_VALUE''], Inr ''test data'')"
    using input_resolution [of ?e flags_default] env(1) by simp
  have b: "reads (fst (acquire_input Stderr flags_default ?w)) = [ReadAll_Stdin]
     \<and> snd (acquire_input Stderr flags_default ?w) = Inr ''Some key''"
    using input_resolution [of ?w flags_default] env(2) par(1) rd(1) by simp
  have c: "reads (fst (acquire_input Stderr ?f ?w)) = [ReadFile ''/tmp/key'']
     \<and> snd (acquire_input Stderr ?f ?w) = Inl (Exit (- 1))
     \<and> snd (acquire_input Stdout ?f ?w) = Inl (Exit (- 1))"
    using input_resolution [of ?w ?f] env(2) par(2) rd(2) by simp
  have ask: "snd (find_askpass ?f ?w) = Inr ''/lib/cryptsetup/askpass''"
    by (simp add: find_askpass_def checkIfExecutableExists_def flags_default_def
          world_stdin_def askpass_installed_def cryptsetupAskpassPath_def)
  have dev: "snd (find_wallet_part_001 ?w) = Inr echo_wallet" "wallet_Reset echo_wallet = None"
    by (simp_all add: find_wallet_part_001_def world_stdin_def echo_wallet_def)
  note t = input_resolution [of ?w ?f "''/lib/cryptsetup/askpass''" "Exit (- 1)"
      echo_wallet "Exit (- 1)"]
  have d: "snd (main_part_002 ?f ?w) = Exit (- 1)
     \<and> stdout_writes (fst (main_part_002 ?f ?w)) = []"
    using t par(3,4) ask c by blast
  have e: "snd (main_part_001 ?f ?w) = Exit (- 1) \<and> prints (fst (main_part_001 ?f ?w)) = []"
    using t par(3,4) dev c by blast
  show ?thesis using a b c d e by blast
qed

section \<open>The confirmation callback\<close>

lemma confirm_registered_part_001:
  "confirm_funcs (fst (main_part_001 f w)) = [getConfirmFunc_deny] \<or>
   (confirm_funcs (fst (main_part_001 f w)) = [] \<and> payloads (fst (main_part_001 f w)) = [])"
  by (simp add: main_part_001_def confirm_funcs_def payloads_def usage_required_def fst_andThen
        collect_phases split: sum.splits)

lemma confirm_registered_part_002:
  "confirm_funcs (fst (main_part_002 f w)) = [getConfirmFunc_deny] \<or>
   (confirm_funcs (fst (main_part_002 f w)) = [] \<and> payloads (fst (main_part_002 f w)) = [])"
  by (simp add: main_part_002_def confirm_funcs_def payloads_def usage_required_def fst_andThen
        collect_phases split: sum.splits)

text \<open>
  Claim C7. The confirmation callback answers \<open>false\<close> with no error to every prompt request and
  makes no external call, so it cannot wait for anybody. It is the only confirmation callback
  that \<open>part_001\<close> and \<open>part_002\<close> register, and it is registered in every run that hands a
  payload to the device.
\<close>

theorem confirmation_always_denied:
  "getConfirmFunc_deny title description ok cancel = ([], (False, None))
   \<and> (\<forall>cb \<in> set (confirm_funcs (fst (main_part_001 f w)))
             \<union> set (confirm_funcs (fst (main_part_002 f w))).
         cb title description ok cancel = ([], (False, None)))
   \<and> (payloads (fst (main_part_001 f w)) \<noteq> [] \<longrightarrow>
         confirm_funcs (fst (main_part_001 f w)) = [getConfirmFunc_deny])
   \<and> (payloads (fst (main_part_002 f w)) \<noteq> [] \<longrightarrow>
         confirm_funcs (fst (main_part_002 f w)) = [getConfirmFunc_deny])"
proof -
  have a: "getConfirmFunc_deny title description ok cancel = ([], (False, None))"
    by (simp add: getConfirmFunc_deny_def)
  have b: "\<forall>cb \<in> set (confirm_funcs (fst (main_part_001 f w)))
             \<union> set (confirm_funcs (fst (main_part_002 f w))).
         cb title description ok cancel = ([], (False, None))"
    using confirm_registered_part_001 [of f w] confirm_registered_part_002 [of f w] a by auto
  have c: "payloads (fst (main_part_001 f w)) \<noteq> [] \<longrightarrow>
         confirm_funcs (fst (main_part_001 f w)) = [getConfirmFunc_deny]"
    using confirm_registered_part_001 [of f w] by blast
  have d: "payloads (fst (main_part_002 f w)) \<noteq> [] \<longrightarrow>
         confirm_funcs (fst (main_part_002 f w)) = [getConfirmFunc_deny]"
    using confirm_registered_part_002 [of f w] by blast
  show ?thesis by (intro conjI a b c d)
qed

text \<open>Witness for C7: the callback registered when \<open>part_002\<close> encrypts \<open>"Some key"\<close>.\<close>

theorem confirmation_always_denied_witness:
  "payloads (fst (main_part_002 (flags_default\<lparr>encryptFlag := True\<rparr>)
        (world_stdin ''Some key'' askpass_installed))) \<noteq> []
   \<and> confirm_funcs (fst (main_part_002 (flags_default\<lparr>encryptFlag := True\<rparr>)
        (world_stdin ''Some key'' askpass_installed))) = [getConfirmFunc_deny]
   \<and> getConfirmFunc_deny ''Reconnect'' ''Please reconnect the device'' ''OK'' ''Cancel''
       = ([], (False, None))"
proof -
  let ?f = "flags_default\<lparr>encryptFlag := True\<rparr>"
  let ?w = "world_stdin ''Some key'' askpass_installed"
  have a: "payloads (fst (main_part_002 ?f ?w)) \<noteq> []"
    by (simp add: run_part_002_encrypt payloads_def)
  note t = confirmation_always_denied
    [of "''Reconnect''" "''Please reconnect the device''" "''OK''" "''Cancel''" ?f ?w]
  have b: "confirm_funcs (fst (main_part_002 ?f ?w)) = [getConfirmFunc_deny]"
    using t a by blast
  have "getConfirmFunc_deny \<in> set (confirm_funcs (fst (main_part_001 ?f ?w)))
             \<union> set (confirm_funcs (fst (main_part_002 ?f ?w)))"
    using b by simp
  then have c: "getConfirmFunc_deny ''Reconnect'' ''Please reconnect the device'' ''OK'' ''Cancel''
       = ([], (False, None))"
    using t by blast
  show ?thesis by (intro conjI a b c)
qed

section \<open>The order of the steps\<close>














section \<open>Askpass discovery\<close>

text \<open>
  Claim C5, at the input where the code departs from it: \<open>--encrypt --use-pinentry\<close>, no
  \<open>--askpass-path\<close>, and neither \<open>/lib/cryptsetup/askpass\<close> nor \<open>systemd-ask-password\<close> present.
  The discovery of lines 100-110 of \<open>part_002\<close> does not look at \<open>usePinentryFlag\<close>: the run
  ends with \<open>os.Exit(6)\<close>, although the message it prints recommends \<open>-P\<close>.
\<close>

theorem pinentry_flag_does_not_skip_discovery:
  "main_part_002 (flags_default\<lparr>encryptFlag := True, usePinentryFlag := True\<rparr>)
      (world_stdin ''Some key'' nothing_installed) =
     ([Stat ''/lib/cryptsetup/askpass'', Getenv ''PATH'',
       Stat ''/usr/bin/systemd-ask-password'', Stat ''/bin/systemd-ask-password'',
       Stderr no_askpass],
      Exit 6)"
  by (simp add: run_defs)

section \<open>The askpass callbacks\<close>







text \<open>
  The buffer of \<open>part_002\<close> is read without \<open>cmd.Wait()\<close>. When the program has written a newline,
  \<open>1234\<close>, a carriage return and a newline, but the copy into the buffer has not happened yet
  at line 184, the callback of \<open>part_002\<close> returns the empty secret with no error, where
  \<open>cmd.Output()\<close> in \<open>part_001\<close> returns the whole output. The answer of \<open>part_002\<close> is a
  function of the buffer alone.
\<close>

lemma unfilled_buffer_gives_empty_secret:
  "snd (getPinFunc_askpass_part_002 False ''/lib/cryptsetup/askpass''
          (askpass_world newline_digits_crlf []) ''PIN'' [] ''OK'' ''Cancel'') = ([], None)
   \<and> snd (getPinFunc_askpass_part_001 False ''/lib/cryptsetup/askpass''
          (askpass_world newline_digits_crlf []) ''PIN'' [] ''OK'' ''Cancel'')
       = (newline_digits_crlf, None)"
  by (simp add: getPinFunc_askpass_part_001_def getPinFunc_askpass_part_002_def Let_def
        askpass_world_def strings_Trim_def)

lemma pty_backend_reads_the_buffer_only:
  assumes "pty_Start cw = pty_Start cw'" "result_String cw = result_String cw'"
  shows "snd (getPinFunc_askpass_part_002 verbose askpassPath cw title description ok cancel) =
         snd (getPinFunc_askpass_part_002 verbose askpassPath cw' title description ok cancel)"
  using assms by (simp add: getPinFunc_askpass_part_002_def Let_def split: option.splits)

end
